theory Spec2Isabelle
  imports Main
begin

section \<open>The SQL database provider of the dynamic-secret engine\<close>

text \<open>
  A shallow embedding of \<^verbatim>\<open>SqlDatabaseProvider\<close> (the provider of dynamic SQL
  credentials): its credential generators, its client configuration, its gateway
  routing and its four entry points \<^verbatim>\<open>validateConnection\<close>, \<^verbatim>\<open>create\<close>,
  \<^verbatim>\<open>revoke\<close> and \<^verbatim>\<open>renew\<close>.

  The provider is asynchronous TypeScript, sequential inside one call. Every call to a
  collaborator (the SQL client library, the template library, the gateway) is recorded
  as an event of a trace, exceptions are values of a sum type, and the behaviour of the
  collaborators is a parameter (the record \<open>env\<close> below).
\<close>

subsection \<open>Data\<close>

text \<open>
  The enum \<^verbatim>\<open>SqlProviders\<close> is declared in \<^verbatim>\<open>./models\<close>; the provider names
  two of its members, \<^verbatim>\<open>Oracle\<close> and \<^verbatim>\<open>MsSQL\<close>, and treats every other
  member alike.
\<close>

datatype SqlProviders = Oracle | MsSQL | OtherDialect string

datatype error =
    ValidationError
  | GatewayError
  | ConnectionError
  | TemplateError
  | ExecutionError
  | RangeError

text \<open>
  The parsed provider configuration (\<^verbatim>\<open>z.infer<typeof DynamicSecretSqlDBSchema>\<close>).
  A field that may be \<^verbatim>\<open>undefined\<close> or \<^verbatim>\<open>null\<close> is an option.
\<close>

record providerInputs =
  client :: SqlProviders
  host :: string
  port :: nat
  database :: string
  username :: string
  password :: string
  creationStatement :: string
  revocationStatement :: string
  renewStatement :: "string option"
  ca :: "string option"
  projectGatewayId :: "string option"

text \<open>
  JavaScript truthiness of an optional string: \<^verbatim>\<open>undefined\<close>, \<^verbatim>\<open>null\<close> and the
  empty string are falsy.
\<close>

definition truthy :: "string option \<Rightarrow> bool" where
  "truthy s = (case s of None \<Rightarrow> False | Some v \<Rightarrow> v \<noteq> [])"

subsection \<open>Credential generator\<close>

text \<open>
  \<^verbatim>\<open>customAlphabet(alphabet, defaultSize)(size)\<close> of the nanoid library returns
  \<open>len\<close> characters, each one drawn from \<open>alphabet\<close> by the random source. The random
  source is the function \<open>rnd\<close>: the character at position \<open>i\<close> is the one that the
  \<open>i\<close>-th draw selects.
\<close>

definition customAlphabet :: "string \<Rightarrow> nat \<Rightarrow> (nat \<Rightarrow> nat) \<Rightarrow> string" where
  "customAlphabet alphabet len rnd =
     map (\<lambda>i. alphabet ! (rnd i mod length alphabet)) [0..<len]"

definition charset :: string where
  "charset = ''abcdefghijklmnopqrstuvwxyzABCDEFGHIJKLMNOPQRSTUVWXYZ0123456789-_.~!*''"

definition generatePassword :: "SqlProviders \<Rightarrow> (nat \<Rightarrow> nat) \<Rightarrow> string" where
  "generatePassword provider rnd =
     (let len = (if provider = Oracle then 30 else 48)
      in customAlphabet charset len rnd)"

text \<open>
  Modelled from the spec: \<^verbatim>\<open>alphaNumericNanoId\<close> of \<^verbatim>\<open>@app/lib/nanoid\<close> is not
  among the sources. The spec describes its result as an alphanumeric token of the
  requested length; it is taken to be nanoid's \<^verbatim>\<open>customAlphabet\<close> over the digits and
  the letters of both cases.
\<close>

definition alphaNumeric :: string where
  "alphaNumeric = ''0123456789abcdefghijklmnopqrstuvwxyzABCDEFGHIJKLMNOPQRSTUVWXYZ''"

definition alphaNumericNanoId :: "nat \<Rightarrow> (nat \<Rightarrow> nat) \<Rightarrow> string" where
  "alphaNumericNanoId len rnd = customAlphabet alphaNumeric len rnd"

text \<open>
  \<^verbatim>\<open>String.prototype.toUpperCase\<close> on the characters of ASCII: a lower-case letter
  (codes 97 to 122) moves down by 32, every other character stays.
\<close>

definition toUpperCase_char :: "char \<Rightarrow> char" where
  "toUpperCase_char c =
     (let n = (of_char c :: nat)
      in if 97 \<le> n \<and> n \<le> 122 then char_of (n - 32) else c)"

definition toUpperCase :: "string \<Rightarrow> string" where
  "toUpperCase s = map toUpperCase_char s"

definition generateUsername :: "SqlProviders \<Rightarrow> (nat \<Rightarrow> nat) \<Rightarrow> string" where
  "generateUsername provider rnd =
     (if provider = Oracle then toUpperCase (alphaNumericNanoId 32 rnd)
      else alphaNumericNanoId 32 rnd)"

text \<open>Character classes used to state what the generators produce.\<close>

definition isDigit :: "char \<Rightarrow> bool" where
  "isDigit c = (48 \<le> (of_char c :: nat) \<and> (of_char c :: nat) \<le> 57)"

definition isUpper :: "char \<Rightarrow> bool" where
  "isUpper c = (65 \<le> (of_char c :: nat) \<and> (of_char c :: nat) \<le> 90)"

definition isLower :: "char \<Rightarrow> bool" where
  "isLower c = (97 \<le> (of_char c :: nat) \<and> (of_char c :: nat) \<le> 122)"

definition isAlphaNumeric :: "char \<Rightarrow> bool" where
  "isAlphaNumeric c = (isDigit c \<or> isUpper c \<or> isLower c)"

subsection \<open>Client configuration\<close>

text \<open>
  The object that \<^verbatim>\<open>$getClient\<close> passes to \<^verbatim>\<open>knex\<close>: the \<^verbatim>\<open>ssl\<close> entry is
  \<^verbatim>\<open>undefined\<close> (here \<open>None\<close>) or \<^verbatim>\<open>{ rejectUnauthorized, ca }\<close>; the
  \<^verbatim>\<open>options\<close> entry is \<^verbatim>\<open>undefined\<close> or
  \<^verbatim>\<open>{ trustServerCertificate, cryptoCredentialsDetails }\<close>, where
  \<^verbatim>\<open>cryptoCredentialsDetails\<close> is \<^verbatim>\<open>{ ca }\<close> (here \<open>Some ca\<close>) or \<^verbatim>\<open>{}\<close>.
\<close>

record sslOptions =
  rejectUnauthorized :: bool
  ssl_ca :: "string option"

record mssqlOptions =
  trustServerCertificate :: bool
  cryptoCredentialsDetails :: "string option option"

record knexConfig =
  knex_client :: SqlProviders
  conn_database :: string
  conn_port :: nat
  conn_host :: string
  conn_user :: string
  conn_password :: string
  conn_ssl :: "sslOptions option"
  conn_options :: "mssqlOptions option"
  acquireConnectionTimeout :: nat

definition EXTERNAL_REQUEST_TIMEOUT :: nat where
  "EXTERNAL_REQUEST_TIMEOUT = 10 * 1000"

definition clientConfig :: "providerInputs \<Rightarrow> knexConfig" where
  "clientConfig providerInputs =
     (let ssl = (if truthy (ca providerInputs)
                 then Some \<lparr>rejectUnauthorized = False, ssl_ca = ca providerInputs\<rparr>
                 else None);
          isMsSQLClient = (client providerInputs = MsSQL)
      in \<lparr>knex_client = client providerInputs,
          conn_database = database providerInputs,
          conn_port = port providerInputs,
          conn_host = host providerInputs,
          conn_user = username providerInputs,
          conn_password = password providerInputs,
          conn_ssl = ssl,
          conn_options =
            (if isMsSQLClient
             then Some \<lparr>trustServerCertificate = \<not> truthy (ca providerInputs),
                        cryptoCredentialsDetails =
                          (if truthy (ca providerInputs) then Some (ca providerInputs) else None)\<rparr>
             else None),
          acquireConnectionTimeout = EXTERNAL_REQUEST_TIMEOUT\<rparr>)"

subsection \<open>Gateway data\<close>

text \<open>
  What \<^verbatim>\<open>fnGetGatewayClientTls\<close> returns, and the options that
  \<^verbatim>\<open>gatewayProxyWrapper\<close> passes to \<^verbatim>\<open>withGatewayProxy\<close>. The relay host and port
  are the first two fragments of the relay address (\<open>None\<close> for \<^verbatim>\<open>undefined\<close>); the
  port is kept as the operand of \<^verbatim>\<open>Number(...)\<close>.
\<close>

record relayDetails =
  relayAddress :: string
  identityId :: string
  orgId :: string
  certChain :: string
  certificate :: string
  privateKey :: string

record tlsOptions =
  tls_ca :: string
  tls_cert :: string
  tls_key :: string

record gatewayOptions =
  targetHost :: string
  targetPort :: nat
  relayHost :: "string option"
  relayPort :: "string option"
  gw_identityId :: string
  gw_orgId :: string
  gw_tlsOptions :: tlsOptions

subsection \<open>Events, world and collaborators\<close>

text \<open>
  The calls that leave the provider, in the order in which they are made:
  \<^item> \<open>GetGatewayClientTls\<close>: the relay directory is asked for the relay of an identifier;
  \<^item> \<open>TunnelOpen\<close>, \<open>TunnelClose\<close>: the gateway tunnel is set up with its options and
    its local port, and torn down;
  \<^item> \<open>Knex\<close>: a client (the backend session of one call) is constructed;
  \<^item> \<open>Compile\<close>: a template is compiled (with or without \<^verbatim>\<open>noEscape\<close>) and applied
    to a context, given as the list of its keys and values;
  \<^item> \<open>Raw\<close>: a statement is sent outside a transaction (\<^verbatim>\<open>db.raw\<close>);
  \<^item> \<open>TxBegin\<close>, \<open>TxRaw\<close>, \<open>TxCommit\<close>, \<open>TxRollback\<close>: a transaction is started, a
    statement is sent inside it (\<^verbatim>\<open>tx.raw\<close>), it is committed or rolled back;
  \<^item> \<open>Destroy\<close>: the client is closed (\<^verbatim>\<open>db.destroy\<close>).
\<close>

datatype event =
    GetGatewayClientTls "string option"
  | TunnelOpen gatewayOptions nat
  | TunnelClose
  | Knex knexConfig
  | Compile bool string "(string \<times> string) list"
  | Raw string
  | TxBegin
  | TxRaw string
  | TxCommit
  | TxRollback
  | Destroy

text \<open>
  The world of one call: the committed state of the SQL backend, the trace of events,
  and the local variables that the callbacks of the call capture and assign.
\<close>

record ('db, 'l) world =
  backend :: 'db
  trace :: "event list"
  locals :: 'l

text \<open>
  The collaborators of the provider. None of them is code of the provider:
  \<^item> \<open>parseAsync\<close>: the schema \<^verbatim>\<open>DynamicSecretSqlDBSchema\<close> applied to the untyped inputs;
  \<^item> \<open>isPrivateHost\<close>: which host literals count as private or loopback;
  \<^item> \<open>fnGetGatewayClientTls\<close>: the relay directory of the gateway service;
  \<^item> \<open>openTunnel\<close>: the local port of the tunnel set up for the given options, or
    \<open>None\<close> when the relay connection cannot be established;
  \<^item> \<open>random\<close>: the random source; \<open>random k\<close> is the sequence of draws of the
    \<open>k\<close>-th generator call;
  \<^item> \<open>toISOString\<close>: \<^verbatim>\<open>new Date(ms).toISOString()\<close>, which throws on a time value
    out of range;
  \<^item> \<open>compile\<close>: the template library (\<^verbatim>\<open>handlebars.compile(template, {noEscape})(context)\<close>);
  \<^item> \<open>connect\<close>: the client acquires a connection to the backend (lazily, at its
    first statement or transaction);
  \<^item> \<open>exec\<close>: the backend executes one statement of a session on its state;
  \<^item> \<open>rollback\<close>: the state in which \<^verbatim>\<open>ROLLBACK\<close> leaves the backend, given the
    state at the beginning of the transaction and the state reached inside it. A backend
    whose statements are all transactional returns to the state at the beginning; a
    backend that commits some statements implicitly keeps their effect.
\<close>

record ('i, 'db) env =
  parseAsync :: "'i \<Rightarrow> error + providerInputs"
  isPrivateHost :: "string \<Rightarrow> bool"
  fnGetGatewayClientTls :: "string option \<Rightarrow> error + relayDetails"
  openTunnel :: "gatewayOptions \<Rightarrow> nat option"
  random :: "nat \<Rightarrow> nat \<Rightarrow> nat"
  toISOString :: "int \<Rightarrow> error + string"
  compile :: "bool \<Rightarrow> string \<Rightarrow> (string \<times> string) list \<Rightarrow> error + string"
  connect :: "knexConfig \<Rightarrow> error + unit"
  exec :: "knexConfig \<Rightarrow> 'db \<Rightarrow> string \<Rightarrow> error + 'db"
  rollback :: "knexConfig \<Rightarrow> 'db \<Rightarrow> 'db \<Rightarrow> 'db"

subsection \<open>Sequencing, exceptions and \<^verbatim>\<open>finally\<close>\<close>

type_synonym ('a, 'db, 'l) prog = "('db, 'l) world \<Rightarrow> (error + 'a) \<times> ('db, 'l) world"

definition returnE :: "'a \<Rightarrow> ('a, 'db, 'l) prog" where
  "returnE x = (\<lambda>w. (Inr x, w))"

definition throwE :: "error \<Rightarrow> ('a, 'db, 'l) prog" where
  "throwE e = (\<lambda>w. (Inl e, w))"

definition liftE :: "error + 'a \<Rightarrow> ('a, 'db, 'l) prog" where
  "liftE r = (\<lambda>w. (r, w))"

definition bindE :: "('a, 'db, 'l) prog \<Rightarrow> ('a \<Rightarrow> ('b, 'db, 'l) prog) \<Rightarrow> ('b, 'db, 'l) prog" where
  "bindE m f = (\<lambda>w. case m w of (Inl e, w') \<Rightarrow> (Inl e, w') | (Inr x, w') \<Rightarrow> f x w')"

text \<open>
  \<^verbatim>\<open>try { m } finally { fin }\<close>: the finaliser runs on every exit of \<open>m\<close>; when it
  throws, its exception replaces the outcome of \<open>m\<close>.
\<close>

definition finallyE :: "('a, 'db, 'l) prog \<Rightarrow> (unit, 'db, 'l) prog \<Rightarrow> ('a, 'db, 'l) prog" where
  "finallyE m fin =
     (\<lambda>w. case m w of (r, w') \<Rightarrow>
            (case fin w' of (Inl e, w'') \<Rightarrow> (Inl e, w'') | (Inr _, w'') \<Rightarrow> (r, w'')))"

definition emit :: "event \<Rightarrow> (unit, 'db, 'l) prog" where
  "emit ev = (\<lambda>w. (Inr (), w\<lparr>trace := trace w @ [ev]\<rparr>))"

subsection \<open>Strings and arrays\<close>

text \<open>
  \<^verbatim>\<open>s.split(sep)\<close> for a separator of one character: the fragments between the
  separators, empty fragments included; the result is never the empty array.
\<close>

fun split_on :: "char \<Rightarrow> string \<Rightarrow> string list" where
  "split_on sep [] = [[]]"
| "split_on sep (c # cs) =
     (if c = sep then [] # split_on sep cs
      else (case split_on sep cs of
              [] \<Rightarrow> [[c]]
            | fragment # fragments \<Rightarrow> (c # fragment) # fragments))"

text \<open>\<^verbatim>\<open>.filter(Boolean)\<close> on an array of strings drops the empty strings.\<close>

definition filter_Boolean :: "string list \<Rightarrow> string list" where
  "filter_Boolean xs = filter (\<lambda>x. x \<noteq> []) xs"

text \<open>Array destructuring: the element at an index, \<^verbatim>\<open>undefined\<close> beyond the end.\<close>

definition element :: "'a list \<Rightarrow> nat \<Rightarrow> 'a option" where
  "element xs i = (if i < length xs then Some (xs ! i) else None)"

subsection \<open>Config validator\<close>

text \<open>
  Modelled from the spec: \<^verbatim>\<open>verifyHostInputValidity\<close> of \<^verbatim>\<open>../dynamic-secret-fns\<close>
  is not among the sources. By the spec, a private or loopback host literal is permitted
  when a relay identifier is present and rejected with a validation error when none is.
  Which literals are private or loopback is the parameter \<open>isPrivate\<close>.
\<close>

definition verifyHostInputValidity :: "(string \<Rightarrow> bool) \<Rightarrow> string \<Rightarrow> bool \<Rightarrow> error + unit" where
  "verifyHostInputValidity isPrivate h isGateway =
     (if \<not> isGateway \<and> isPrivate h then Inl ValidationError else Inr ())"

definition validateProviderInputs :: "('i, 'db) env \<Rightarrow> 'i \<Rightarrow> error + providerInputs" where
  "validateProviderInputs env inputs =
     (case parseAsync env inputs of
        Inl e \<Rightarrow> Inl e
      | Inr providerInputs \<Rightarrow>
          (case verifyHostInputValidity (isPrivateHost env) (host providerInputs)
                  (truthy (projectGatewayId providerInputs)) of
             Inl e \<Rightarrow> Inl e
           | Inr _ \<Rightarrow> Inr providerInputs))"

subsection \<open>Connection factory and the SQL client\<close>

text \<open>
  \<^verbatim>\<open>$getClient\<close> constructs the client; the client is identified with its
  configuration. Constructing and destroying a client do not fail.
\<close>

definition getClient :: "providerInputs \<Rightarrow> (knexConfig, 'db, 'l) prog" where
  "getClient providerInputs =
     bindE (emit (Knex (clientConfig providerInputs))) (\<lambda>_. returnE (clientConfig providerInputs))"

definition destroy :: "knexConfig \<Rightarrow> (unit, 'db, 'l) prog" where
  "destroy db = emit Destroy"

text \<open>
  \<^verbatim>\<open>db.raw(statement)\<close>: a connection is acquired, the statement is executed and its
  effect on the backend is immediate.
\<close>

definition raw :: "('i, 'db) env \<Rightarrow> knexConfig \<Rightarrow> string \<Rightarrow> (unit, 'db, 'l) prog" where
  "raw env db statement =
     (\<lambda>w. case connect env db of
             Inl e \<Rightarrow> (Inl e, w)
           | Inr _ \<Rightarrow>
               (case exec env db (backend w) statement of
                  Inl e \<Rightarrow> (Inl e, w\<lparr>trace := trace w @ [Raw statement]\<rparr>)
                | Inr b \<Rightarrow> (Inr (), w\<lparr>backend := b, trace := trace w @ [Raw statement]\<rparr>)))"

text \<open>
  \<^verbatim>\<open>tx.raw(statement)\<close>: the statement is executed on the state of the open
  transaction.
\<close>

definition txRaw :: "('i, 'db) env \<Rightarrow> knexConfig \<Rightarrow> string \<Rightarrow> (unit, 'db, 'l) prog" where
  "txRaw env tx statement =
     (\<lambda>w. case exec env tx (backend w) statement of
             Inl e \<Rightarrow> (Inl e, w\<lparr>trace := trace w @ [TxRaw statement]\<rparr>)
           | Inr b \<Rightarrow> (Inr (), w\<lparr>backend := b, trace := trace w @ [TxRaw statement]\<rparr>))"

text \<open>
  \<^verbatim>\<open>db.transaction(handler)\<close> with a handler that returns a promise: a connection is
  acquired and the transaction begins; when the handler returns, the transaction is
  committed; when the handler throws, \<^verbatim>\<open>ROLLBACK\<close> is sent (what it leaves of the
  statements executed so far is the backend's, see \<open>rollback\<close>) and the exception is
  thrown on.
\<close>

definition transaction ::
  "('i, 'db) env \<Rightarrow> knexConfig \<Rightarrow> (knexConfig \<Rightarrow> (unit, 'db, 'l) prog) \<Rightarrow> (unit, 'db, 'l) prog" where
  "transaction env db handler =
     (\<lambda>w. case connect env db of
             Inl e \<Rightarrow> (Inl e, w)
           | Inr _ \<Rightarrow>
               (case handler db (w\<lparr>trace := trace w @ [TxBegin]\<rparr>) of
                  (Inr _, w') \<Rightarrow> (Inr (), w'\<lparr>trace := trace w' @ [TxCommit]\<rparr>)
                | (Inl e, w') \<Rightarrow>
                    (Inl e, w'\<lparr>backend := rollback env db (backend w) (backend w'),
                               trace := trace w' @ [TxRollback]\<rparr>)))"

text \<open>The loop \<^verbatim>\<open>for (const query of queries) await tx.raw(query)\<close>.\<close>

fun runQueries :: "('i, 'db) env \<Rightarrow> string list \<Rightarrow> knexConfig \<Rightarrow> (unit, 'db, 'l) prog" where
  "runQueries env [] tx = returnE ()"
| "runQueries env (query # queries) tx =
     bindE (txRaw env tx query) (\<lambda>_. runQueries env queries tx)"

text \<open>The template library, with the call recorded.\<close>

definition handlebars_compile ::
  "('i, 'db) env \<Rightarrow> bool \<Rightarrow> string \<Rightarrow> (string \<times> string) list \<Rightarrow> (string, 'db, 'l) prog" where
  "handlebars_compile env noEscape template context =
     bindE (emit (Compile noEscape template context))
       (\<lambda>_. liftE (compile env noEscape template context))"

subsection \<open>Gateway tunnel\<close>

text \<open>
  Modelled from the spec: \<^verbatim>\<open>withGatewayProxy\<close> of \<^verbatim>\<open>@app/lib/gateway\<close> is not among
  the sources. By the spec it opens a local port and the connection to the relay, fails
  with a gateway error before any backend session when the relay connection cannot be
  established, invokes the callback with the local port, and tears the tunnel down when
  the callback returns or throws.
\<close>

definition withGatewayProxy ::
  "('i, 'db) env \<Rightarrow> (nat \<Rightarrow> (unit, 'db, 'l) prog) \<Rightarrow> gatewayOptions \<Rightarrow> (unit, 'db, 'l) prog" where
  "withGatewayProxy env callback options =
     (case openTunnel env options of
        None \<Rightarrow> throwE GatewayError
      | Some localPort \<Rightarrow>
          finallyE (bindE (emit (TunnelOpen options localPort)) (\<lambda>_. callback localPort))
            (emit TunnelClose))"

text \<open>
  The options object that \<^verbatim>\<open>gatewayProxyWrapper\<close> passes to
  \<^verbatim>\<open>withGatewayProxy\<close>; \<open>parts\<close> is the relay address split at the colons, of which
  the first two fragments are the relay host and the relay port.
\<close>

definition proxyOptions :: "providerInputs \<Rightarrow> relayDetails \<Rightarrow> gatewayOptions" where
  "proxyOptions providerInputs relayDetails =
     (let parts = split_on CHR '':'' (relayAddress relayDetails)
      in \<lparr>targetHost = host providerInputs,
          targetPort = port providerInputs,
          relayHost = element parts 0,
          relayPort = element parts 1,
          gw_identityId = identityId relayDetails,
          gw_orgId = orgId relayDetails,
          gw_tlsOptions =
            \<lparr>tls_ca = certChain relayDetails,
             tls_cert = certificate relayDetails,
             tls_key = privateKey relayDetails\<rparr>\<rparr>)"

definition gatewayProxyWrapper ::
  "('i, 'db) env \<Rightarrow> providerInputs \<Rightarrow> (string \<Rightarrow> nat \<Rightarrow> (unit, 'db, 'l) prog) \<Rightarrow> (unit, 'db, 'l) prog" where
  "gatewayProxyWrapper env providerInputs gatewayCallback =
     bindE (emit (GetGatewayClientTls (projectGatewayId providerInputs))) (\<lambda>_.
     bindE (liftE (fnGetGatewayClientTls env (projectGatewayId providerInputs))) (\<lambda>relayDetails.
       withGatewayProxy env
         (\<lambda>p. gatewayCallback ''localhost'' p)
         (proxyOptions providerInputs relayDetails)))"

subsection \<open>Lease orchestrator\<close>

text \<open>
  In every entry point the callback \<^verbatim>\<open>gatewayCallback\<close> takes a host and a port,
  whose defaults are the configured ones; the direct path below passes these defaults.
\<close>

text \<open>
  \<^verbatim>\<open>validateConnection\<close>: the local variable \<^verbatim>\<open>isConnected\<close> is the component
  \<open>locals\<close> of the world in which the callback runs. The callback assigns it the
  result of \<^verbatim>\<open>db.raw(testStatement).then(() => true)\<close>, then destroys the client; no
  \<^verbatim>\<open>try\<close> surrounds the statement.
\<close>

definition validateConnection_gatewayCallback ::
  "('i, 'db) env \<Rightarrow> providerInputs \<Rightarrow> string \<Rightarrow> nat \<Rightarrow> (unit, 'db, bool) prog" where
  "validateConnection_gatewayCallback env providerInputs h p =
     bindE (getClient (providerInputs\<lparr>port := p, host := h\<rparr>)) (\<lambda>db.
       let testStatement =
             (if client providerInputs = Oracle then ''SELECT 1 FROM DUAL'' else ''SELECT 1'')
       in bindE (raw env db testStatement) (\<lambda>_.
          bindE (\<lambda>w. (Inr (), w\<lparr>locals := True\<rparr>)) (\<lambda>_.
          destroy db)))"

definition validateConnection :: "('i, 'db) env \<Rightarrow> 'i \<Rightarrow> (bool, 'db, 'l) prog" where
  "validateConnection env inputs =
     (\<lambda>w. case validateProviderInputs env inputs of
             Inl e \<Rightarrow> (Inl e, w)
           | Inr providerInputs \<Rightarrow>
               (let gatewayCallback = validateConnection_gatewayCallback env providerInputs;
                    frame = \<lparr>backend = backend w, trace = trace w, locals = False\<rparr>
                in case (if truthy (projectGatewayId providerInputs)
                         then gatewayProxyWrapper env providerInputs gatewayCallback
                         else gatewayCallback (host providerInputs) (port providerInputs)) frame of
                     (Inl e, frame') \<Rightarrow>
                       (Inl e, w\<lparr>backend := backend frame', trace := trace frame'\<rparr>)
                   | (Inr _, frame') \<Rightarrow>
                       (Inr (locals frame'), w\<lparr>backend := backend frame', trace := trace frame'\<rparr>)))"

text \<open>The result of \<^verbatim>\<open>create\<close>.\<close>

record secretData =
  DB_USERNAME :: string
  DB_PASSWORD :: string

record lease =
  entityId :: string
  data :: secretData

definition create_gatewayCallback ::
  "('i, 'db) env \<Rightarrow> providerInputs \<Rightarrow> string \<Rightarrow> string \<Rightarrow> int \<Rightarrow> string \<Rightarrow> nat \<Rightarrow> (unit, 'db, 'l) prog" where
  "create_gatewayCallback env providerInputs usern passw expireAt h p =
     bindE (getClient (providerInputs\<lparr>port := p, host := h\<rparr>)) (\<lambda>db.
       finallyE
         (bindE (liftE (toISOString env expireAt)) (\<lambda>expiration.
          bindE (handlebars_compile env True (creationStatement providerInputs)
                   [(''username'', usern), (''password'', passw),
                    (''expiration'', expiration), (''database'', database providerInputs)])
            (\<lambda>rendered.
               let queries = filter_Boolean (split_on CHR '';'' rendered)
               in transaction env db (runQueries env queries))))
         (destroy db))"

definition create :: "('i, 'db) env \<Rightarrow> 'i \<Rightarrow> int \<Rightarrow> (lease, 'db, 'l) prog" where
  "create env inputs expireAt =
     bindE (liftE (validateProviderInputs env inputs)) (\<lambda>providerInputs.
       let usern = generateUsername (client providerInputs) (random env 0);
           passw = generatePassword (client providerInputs) (random env 1);
           gatewayCallback = create_gatewayCallback env providerInputs usern passw expireAt
       in bindE (if truthy (projectGatewayId providerInputs)
                 then gatewayProxyWrapper env providerInputs gatewayCallback
                 else gatewayCallback (host providerInputs) (port providerInputs))
            (\<lambda>_. returnE \<lparr>entityId = usern,
                          data = \<lparr>DB_USERNAME = usern, DB_PASSWORD = passw\<rparr>\<rparr>))"

text \<open>\<^verbatim>\<open>revoke\<close> and \<^verbatim>\<open>renew\<close> return \<^verbatim>\<open>{ entityId }\<close>, here the identifier itself.\<close>

definition revoke_gatewayCallback ::
  "('i, 'db) env \<Rightarrow> providerInputs \<Rightarrow> string \<Rightarrow> string \<Rightarrow> nat \<Rightarrow> (unit, 'db, 'l) prog" where
  "revoke_gatewayCallback env providerInputs usern h p =
     bindE (getClient (providerInputs\<lparr>port := p, host := h\<rparr>)) (\<lambda>db.
       finallyE
         (bindE (handlebars_compile env False (revocationStatement providerInputs)
                   [(''username'', usern), (''database'', database providerInputs)])
            (\<lambda>rendered.
               let queries = filter_Boolean (split_on CHR '';'' rendered)
               in transaction env db (runQueries env queries)))
         (destroy db))"

definition revoke :: "('i, 'db) env \<Rightarrow> 'i \<Rightarrow> string \<Rightarrow> (string, 'db, 'l) prog" where
  "revoke env inputs entity =
     bindE (liftE (validateProviderInputs env inputs)) (\<lambda>providerInputs.
       let usern = entity;
           gatewayCallback = revoke_gatewayCallback env providerInputs usern
       in bindE (if truthy (projectGatewayId providerInputs)
                 then gatewayProxyWrapper env providerInputs gatewayCallback
                 else gatewayCallback (host providerInputs) (port providerInputs))
            (\<lambda>_. returnE usern))"

text \<open>
  \<^verbatim>\<open>renew\<close>: the callback renders the renewal template after the client is constructed
  and before the \<^verbatim>\<open>try\<close> block; \<open>template\<close> is the renewal statement of the
  configuration, which is truthy where the callback is used.
\<close>

definition renew_gatewayCallback ::
  "('i, 'db) env \<Rightarrow> providerInputs \<Rightarrow> string \<Rightarrow> string \<Rightarrow> int \<Rightarrow> string \<Rightarrow> nat \<Rightarrow> (unit, 'db, 'l) prog" where
  "renew_gatewayCallback env providerInputs template entity expireAt h p =
     bindE (getClient (providerInputs\<lparr>port := p, host := h\<rparr>)) (\<lambda>db.
     bindE (liftE (toISOString env expireAt)) (\<lambda>expiration.
     bindE (handlebars_compile env False template
              [(''username'', entity), (''expiration'', expiration),
               (''database'', database providerInputs)])
       (\<lambda>rendered.
          finallyE
            (if rendered \<noteq> []
             then (let queries = filter_Boolean (split_on CHR '';'' rendered)
                   in transaction env db (runQueries env queries))
             else returnE ())
            (destroy db))))"

definition renew :: "('i, 'db) env \<Rightarrow> 'i \<Rightarrow> string \<Rightarrow> int \<Rightarrow> (string, 'db, 'l) prog" where
  "renew env inputs entity expireAt =
     bindE (liftE (validateProviderInputs env inputs)) (\<lambda>providerInputs.
       case renewStatement providerInputs of
         None \<Rightarrow> returnE entity
       | Some template \<Rightarrow>
           if template = [] then returnE entity
           else
             (let gatewayCallback =
                    renew_gatewayCallback env providerInputs template entity expireAt
              in bindE (if truthy (projectGatewayId providerInputs)
                        then gatewayProxyWrapper env providerInputs gatewayCallback
                        else gatewayCallback (host providerInputs) (port providerInputs))
                   (\<lambda>_. returnE entity)))"

subsection \<open>Observations on traces\<close>

text \<open>The events that a program adds to the trace of the world in which it starts.\<close>

definition new_events :: "('a, 'db, 'l) prog \<Rightarrow> ('db, 'l) world \<Rightarrow> event list" where
  "new_events m w = drop (length (trace w)) (trace (snd (m w)))"

text \<open>The statements sent to the backend, inside or outside a transaction, in order.\<close>

fun statements :: "event list \<Rightarrow> string list" where
  "statements [] = []"
| "statements (Raw s # evs) = s # statements evs"
| "statements (TxRaw s # evs) = s # statements evs"
| "statements (_ # evs) = statements evs"

text \<open>
  A trace keeps its statements in a single transaction when no statement is sent outside
  a transaction, at most one transaction is begun, every statement of a transaction lies
  between its beginning and its commit or rollback, and a transaction that was begun is
  committed or rolled back.
\<close>

datatype txphase = Before | Within | After

fun tx_step :: "txphase \<Rightarrow> event \<Rightarrow> txphase option" where
  "tx_step ph (Raw s) = None"
| "tx_step ph TxBegin = (if ph = Before then Some Within else None)"
| "tx_step ph (TxRaw s) = (if ph = Within then Some Within else None)"
| "tx_step ph TxCommit = (if ph = Within then Some After else None)"
| "tx_step ph TxRollback = (if ph = Within then Some After else None)"
| "tx_step ph _ = Some ph"

fun tx_run :: "txphase \<Rightarrow> event list \<Rightarrow> txphase option" where
  "tx_run ph [] = Some ph"
| "tx_run ph (ev # evs) = (case tx_step ph ev of None \<Rightarrow> None | Some ph' \<Rightarrow> tx_run ph' evs)"


text \<open>Sessions opened (clients constructed) and closed (clients destroyed) in a trace.\<close>

definition opened :: "event list \<Rightarrow> nat" where
  "opened evs = length (filter (\<lambda>ev. case ev of Knex _ \<Rightarrow> True | _ \<Rightarrow> False) evs)"

definition closed :: "event list \<Rightarrow> nat" where
  "closed evs = length (filter (\<lambda>ev. ev = Destroy) evs)"

text \<open>
  The events of a backend session after its construction: templates, statements,
  transactions and the closing of the client; neither a second client nor a gateway call.
\<close>

fun session_event :: "event \<Rightarrow> bool" where
  "session_event (GetGatewayClientTls _) = False"
| "session_event (TunnelOpen _ _) = False"
| "session_event TunnelClose = False"
| "session_event (Knex _) = False"
| "session_event _ = True"

text \<open>
  The direct route: the call constructs its client for the configured host and port and
  makes no gateway call.
\<close>

definition direct_route :: "providerInputs \<Rightarrow> event list \<Rightarrow> bool" where
  "direct_route cfg evs =
     (case evs of
        Knex c # rest \<Rightarrow>
          conn_host c = host cfg \<and> conn_port c = port cfg \<and> list_all session_event rest
      | _ \<Rightarrow> False)"

text \<open>
  The gateway route: the relay of the configured identifier is resolved first. When it is
  not resolved or the tunnel is not established, nothing else happens. Otherwise the
  tunnel is opened towards the configured host and port, the client is constructed for
  \<^verbatim>\<open>localhost\<close> and the local port of the tunnel, the session runs, and the tunnel is
  closed last.
\<close>

definition tunnel_route :: "('i, 'db) env \<Rightarrow> providerInputs \<Rightarrow> event list \<Rightarrow> bool" where
  "tunnel_route env cfg evs =
     (case evs of
        [GetGatewayClientTls gid] \<Rightarrow>
          gid = projectGatewayId cfg \<and>
          (case fnGetGatewayClientTls env gid of
             Inl e \<Rightarrow> True
           | Inr d \<Rightarrow> openTunnel env (proxyOptions cfg d) = None)
      | GetGatewayClientTls gid # TunnelOpen opts p # Knex c # rest \<Rightarrow>
          gid = projectGatewayId cfg \<and>
          openTunnel env opts = Some p \<and>
          targetHost opts = host cfg \<and> targetPort opts = port cfg \<and>
          conn_host c = ''localhost'' \<and> conn_port c = p \<and>
          rest \<noteq> [] \<and> last rest = TunnelClose \<and> list_all session_event (butlast rest)
      | _ \<Rightarrow> False)"

text \<open>A property of the calls to the template library in a trace.\<close>

definition compile_calls ::
  "(bool \<Rightarrow> string \<Rightarrow> (string \<times> string) list \<Rightarrow> bool) \<Rightarrow> event \<Rightarrow> bool" where
  "compile_calls P ev = (case ev of Compile noEscape template context \<Rightarrow> P noEscape template context | _ \<Rightarrow> True)"

text \<open>
  The outcome of the liveness probe through a client: the error of the connection, the
  error of the statement, or \<^verbatim>\<open>true\<close>.
\<close>

definition probe_outcome :: "('i, 'db) env \<Rightarrow> knexConfig \<Rightarrow> string \<Rightarrow> 'db \<Rightarrow> error + bool" where
  "probe_outcome env db statement b =
     (case connect env db of
        Inl e \<Rightarrow> Inl e
      | Inr _ \<Rightarrow> (case exec env db b statement of Inl e \<Rightarrow> Inl e | Inr _ \<Rightarrow> Inr True))"

text \<open>
  A program emits \<open>Q\<close> when it only extends the trace, and every event that it adds
  satisfies \<open>Q\<close>.
\<close>

definition emits :: "(event \<Rightarrow> bool) \<Rightarrow> ('a, 'db, 'l) prog \<Rightarrow> bool" where
  "emits Q m = (\<forall>w. \<exists>evs. trace (snd (m w)) = trace w @ evs \<and> list_all Q evs)"

subsection \<open>A model of the template library\<close>

text \<open>
  The universal statements below hold for every renderer (the component \<open>compile\<close> of
  the environment). Statements about what escaping does to a value need a renderer: the
  following one covers a fragment of handlebars, the interpolation of variables, which is
  what the statement templates use, and says nothing (\<open>None\<close>) about a template outside
  the fragment.

  In the fragment, the text between the tags has no brace and no backslash. A tag
  \<^verbatim>\<open>{{name}}\<close> is replaced by the value of \<open>name\<close> in the context (by nothing when the
  context has no such key), with the characters \<^verbatim>\<open>& < > " ' ` =\<close> replaced by HTML
  entities unless \<^verbatim>\<open>noEscape\<close> is set; a tag \<^verbatim>\<open>{{{name}}}\<close> or \<^verbatim>\<open>{{&name}}\<close> is
  replaced by the value as it is. Blanks may surround the name. A name is a letter or an
  underscore followed by letters, digits and underscores, and is none of the words that
  the library reads as helpers or literals. A tag that is opened and not closed is a
  parse error of the library.
\<close>

definition escapeChar :: "char \<Rightarrow> string" where
  "escapeChar c =
     (if c = CHR ''&'' then ''&amp;''
      else if c = CHR ''<'' then ''&lt;''
      else if c = CHR ''>'' then ''&gt;''
      else if c = CHR 0x22 then ''&quot;''
      else if c = CHR 0x27 then ''&#x27;''
      else if c = CHR 0x60 then ''&#x60;''
      else if c = CHR ''='' then ''&#x3D;''
      else [c])"

definition escapeExpression :: "string \<Rightarrow> string" where
  "escapeExpression s = concat (map escapeChar s)"

definition lookupProperty :: "(string \<times> string) list \<Rightarrow> string \<Rightarrow> string" where
  "lookupProperty context name = (case map_of context name of None \<Rightarrow> [] | Some v \<Rightarrow> v)"

text \<open>The text before the first occurrence of a closing delimiter, and the text after it.\<close>

fun find_close :: "string \<Rightarrow> string \<Rightarrow> (string \<times> string) option" where
  "find_close d [] = None"
| "find_close d (c # cs) =
     (if take (length d) (c # cs) = d then Some ([], drop (length d) (c # cs))
      else (case find_close d cs of
              None \<Rightarrow> None
            | Some (inner, rest) \<Rightarrow> Some (c # inner, rest)))"

datatype segment = Content char | Mustache bool string

text \<open>
  The segments of a template: \<open>None\<close> outside the fragment (a brace or a backslash in
  the text, a closing delimiter followed by one more brace), a parse error for an unclosed
  tag.
\<close>

function parse :: "string \<Rightarrow> (error + segment list) option" where
  "parse [] = Some (Inr [])"
| "parse (c # cs) =
     (if take 3 (c # cs) = ''{{{'' then
        (case find_close ''}}}'' (drop 3 (c # cs)) of
           None \<Rightarrow> Some (Inl TemplateError)
         | Some (inner, rest) \<Rightarrow>
             (if take 1 rest = ''}'' then None
              else (case parse rest of
                      None \<Rightarrow> None
                    | Some r \<Rightarrow>
                        (case r of
                           Inl e \<Rightarrow> Some (Inl e)
                         | Inr segs \<Rightarrow> Some (Inr (Mustache True inner # segs))))))
      else if take 2 (c # cs) = ''{{'' then
        (case find_close ''}}'' (drop 2 (c # cs)) of
           None \<Rightarrow> Some (Inl TemplateError)
         | Some (inner, rest) \<Rightarrow>
             (if take 1 rest = ''}'' then None
              else (case parse rest of
                      None \<Rightarrow> None
                    | Some r \<Rightarrow>
                        (case r of
                           Inl e \<Rightarrow> Some (Inl e)
                         | Inr segs \<Rightarrow> Some (Inr (Mustache False inner # segs))))))
      else if c = CHR ''{'' \<or> c = CHR ''}'' \<or> c = CHR 0x5C then None
      else (case parse cs of
              None \<Rightarrow> None
            | Some r \<Rightarrow>
                (case r of
                   Inl e \<Rightarrow> Some (Inl e)
                 | Inr segs \<Rightarrow> Some (Inr (Content c # segs)))))"
  by pat_completeness auto
termination
proof -
  have shorter: "find_close d s = Some (inner, rest) \<Longrightarrow> length rest \<le> length s"
    for d s inner rest
    by (induction s arbitrary: inner rest) (auto split: if_splits option.splits)
  show ?thesis
    by (relation "measure length") (auto dest!: shorter)
qed

definition trim :: "string \<Rightarrow> string" where
  "trim s = rev (dropWhile (\<lambda>c. c = CHR '' '') (rev (dropWhile (\<lambda>c. c = CHR '' '') s)))"

text \<open>The words that the library does not read as the name of a variable.\<close>

definition reserved :: "string list" where
  "reserved =
     [''if'', ''unless'', ''each'', ''with'', ''lookup'', ''log'', ''this'', ''else'',
      ''true'', ''false'', ''null'', ''undefined'', ''helperMissing'', ''blockHelperMissing'']"

definition isIdentifier :: "string \<Rightarrow> bool" where
  "isIdentifier s =
     (case s of
        [] \<Rightarrow> False
      | c # cs \<Rightarrow>
          (isUpper c \<or> isLower c \<or> c = CHR ''_'') \<and>
          list_all (\<lambda>c. isAlphaNumeric c \<or> c = CHR ''_'') cs \<and>
          s \<notin> set reserved)"

definition render_segment :: "bool \<Rightarrow> (string \<times> string) list \<Rightarrow> segment \<Rightarrow> string option" where
  "render_segment noEscape context seg =
     (case seg of
        Content c \<Rightarrow> Some [c]
      | Mustache triple inner \<Rightarrow>
          (let expr = trim inner;
               ampersand = (\<not> triple \<and> take 1 expr = ''&'');
               name = (if ampersand then trim (drop 1 expr) else expr)
           in if isIdentifier name
              then Some (if triple \<or> ampersand \<or> noEscape then lookupProperty context name
                         else escapeExpression (lookupProperty context name))
              else None))"

fun render_all :: "bool \<Rightarrow> (string \<times> string) list \<Rightarrow> segment list \<Rightarrow> string option" where
  "render_all noEscape context [] = Some []"
| "render_all noEscape context (seg # segs) =
     (case render_segment noEscape context seg of
        None \<Rightarrow> None
      | Some out \<Rightarrow>
          (case render_all noEscape context segs of
             None \<Rightarrow> None
           | Some outs \<Rightarrow> Some (out @ outs)))"

definition handlebars ::
  "bool \<Rightarrow> string \<Rightarrow> (string \<times> string) list \<Rightarrow> (error + string) option" where
  "handlebars noEscape template context =
     (case parse template of
        None \<Rightarrow> None
      | Some r \<Rightarrow>
          (case r of
             Inl e \<Rightarrow> Some (Inl e)
           | Inr segs \<Rightarrow>
               (case render_all noEscape context segs of
                  None \<Rightarrow> None
                | Some out \<Rightarrow> Some (Inr out))))"

subsection \<open>A test double of the collaborators\<close>

text \<open>
  A concrete environment on which the statements below are exercised. The untyped inputs
  are configurations already and the schema accepts them all; the backend state is the
  list of the statements that took effect; the backend refuses a statement that begins
  with \<^verbatim>\<open>FAIL\<close> and returns, on rollback, to the state at the beginning of the
  transaction; no connection is acquired to the host \<^verbatim>\<open>down.example.com\<close>; the
  clock knows time values of the supported range and maps them to one instant; the
  renderer is the model above and refuses a template outside its fragment.
\<close>

definition demoCompile :: "bool \<Rightarrow> string \<Rightarrow> (string \<times> string) list \<Rightarrow> error + string" where
  "demoCompile noEscape template context =
     (case handlebars noEscape template context of None \<Rightarrow> Inl TemplateError | Some r \<Rightarrow> r)"

definition demoRelay :: relayDetails where
  "demoRelay =
     \<lparr>relayAddress = ''relay.example.com:8443'', identityId = ''identity'', orgId = ''org'',
      certChain = ''chain'', certificate = ''cert'', privateKey = ''key''\<rparr>"

definition demoEnv :: "(providerInputs, string list) env" where
  "demoEnv =
     \<lparr>parseAsync = Inr,
      isPrivateHost = (\<lambda>h. h = ''localhost'' \<or> h = ''127.0.0.1'' \<or> take 3 h = ''10.''),
      fnGetGatewayClientTls = (\<lambda>gid. Inr demoRelay),
      openTunnel = (\<lambda>opts. Some 40123),
      random = (\<lambda>k i. 7 * i + k),
      toISOString =
        (\<lambda>ms. if \<bar>ms\<bar> \<le> 8640000000000000 then Inr ''2030-01-01T00:00:00.000Z''
              else Inl RangeError),
      compile = demoCompile,
      connect = (\<lambda>c. if conn_host c = ''down.example.com'' then Inl ConnectionError else Inr ()),
      exec = (\<lambda>c b q. if take 4 q = ''FAIL'' then Inl ExecutionError else Inr (b @ [q])),
      rollback = (\<lambda>c begun reached. begun)\<rparr>"

text \<open>The same collaborators with a backend that accepts connections and refuses every statement.\<close>

definition refusingEnv :: "(providerInputs, string list) env" where
  "refusingEnv = demoEnv\<lparr>exec := (\<lambda>c b q. Inl ExecutionError)\<rparr>"

definition demoConfig :: providerInputs where
  "demoConfig =
     \<lparr>client = OtherDialect ''postgres'',
      host = ''db.example.com'',
      port = 5432,
      database = ''app'',
      username = ''admin'',
      password = ''adminpw'',
      creationStatement = ''CREATE USER {{username}};GRANT ALL ON {{database}} TO {{username}};'',
      revocationStatement = ''DROP USER {{username}};'',
      renewStatement = Some ''ALTER USER {{username}} UNTIL {{expiration}};'',
      ca = None,
      projectGatewayId = None\<rparr>"


text \<open>A configuration with a relay identifier.\<close>

definition gatewayConfig :: providerInputs where
  "gatewayConfig = demoConfig\<lparr>projectGatewayId := Some ''gw-1''\<rparr>"

text \<open>A configuration whose renewal template has an unclosed tag.\<close>

definition brokenRenewConfig :: providerInputs where
  "brokenRenewConfig = demoConfig\<lparr>renewStatement := Some ''ALTER USER {{username''\<rparr>"

text \<open>
  A configuration whose database name has an ampersand, and whose three templates
  interpolate the database name.
\<close>

definition ampConfig :: providerInputs where
  "ampConfig =
     demoConfig\<lparr>database := ''R&D'',
                creationStatement := ''GRANT ALL ON {{database}} TO app'',
                revocationStatement := ''REVOKE ALL ON {{database}} FROM app'',
                renewStatement := Some ''ALTER DATABASE {{database}}''\<rparr>"

definition world0 :: "(string list, unit) world" where
  "world0 = \<lparr>backend = [], trace = [], locals = ()\<rparr>"

subsection \<open>Auxiliary notions for the statements about \<^verbatim>\<open>create\<close>\<close>

text \<open>
  The batch of \<^verbatim>\<open>create\<close>: the statements obtained by rendering the creation template
  on the context of the call and splitting the result at the separator, empty fragments
  dropped; \<open>None\<close> when the expiration or the template cannot be rendered.
\<close>

definition creationQueries ::
  "('i, 'db) env \<Rightarrow> providerInputs \<Rightarrow> string \<Rightarrow> string \<Rightarrow> int \<Rightarrow> string list option" where
  "creationQueries env providerInputs usern passw expireAt =
     (case toISOString env expireAt of
        Inl e \<Rightarrow> None
      | Inr expiration \<Rightarrow>
          (case compile env True (creationStatement providerInputs)
                  [(''username'', usern), (''password'', passw),
                   (''expiration'', expiration), (''database'', database providerInputs)] of
             Inl e \<Rightarrow> None
           | Inr rendered \<Rightarrow> Some (filter_Boolean (split_on CHR '';'' rendered))))"

text \<open>
  What the backend makes of a batch of statements executed in order from a state: the
  final state when every statement succeeds; otherwise the index of the first statement
  that fails, its error, and the state reached before it.
\<close>

fun batch_result ::
  "('i, 'db) env \<Rightarrow> knexConfig \<Rightarrow> 'db \<Rightarrow> string list \<Rightarrow> (nat \<times> error \<times> 'db) + 'db" where
  "batch_result env db b [] = Inr b"
| "batch_result env db b (q # qs) =
     (case exec env db b q of
        Inl e \<Rightarrow> Inl (0, e, b)
      | Inr b' \<Rightarrow>
          (case batch_result env db b' qs of
             Inl (k, e, s) \<Rightarrow> Inl (Suc k, e, s)
           | Inr b'' \<Rightarrow> Inr b''))"

text \<open>
  The client through which a call with a validated configuration reaches the backend: on
  the direct route the client of the configured host and port; on the gateway route the
  client of \<^verbatim>\<open>localhost\<close> and the local port of the tunnel, and none when the relay is
  not resolved or the tunnel is not established.
\<close>

definition routedClient :: "('i, 'db) env \<Rightarrow> providerInputs \<Rightarrow> knexConfig option" where
  "routedClient env cfg =
     (if truthy (projectGatewayId cfg)
      then (case fnGetGatewayClientTls env (projectGatewayId cfg) of
              Inl e \<Rightarrow> None
            | Inr d \<Rightarrow>
                (case openTunnel env (proxyOptions cfg d) of
                   None \<Rightarrow> None
                 | Some p \<Rightarrow> Some (clientConfig (cfg\<lparr>port := p, host := ''localhost''\<rparr>))))
      else Some (clientConfig cfg))"


subsection \<open>Auxiliary notions for the statements about rendering\<close>

text \<open>The calls to the template library in a trace, in order, with their arguments.\<close>

fun compiles :: "event list \<Rightarrow> (bool \<times> string \<times> (string \<times> string) list) list" where
  "compiles [] = []"
| "compiles (Compile noEscape template context # evs) =
     (noEscape, template, context) # compiles evs"
| "compiles (_ # evs) = compiles evs"

text \<open>
  A program makes the calls \<open>calls\<close> to the template library when it only extends the
  trace, and the calls among the events that it adds are \<open>calls\<close>.
\<close>

definition compiling ::
  "(bool \<times> string \<times> (string \<times> string) list) list \<Rightarrow> ('a, 'db, 'l) prog \<Rightarrow> bool" where
  "compiling calls m = (\<forall>w. \<exists>evs. trace (snd (m w)) = trace w @ evs \<and> compiles evs = calls)"

section \<open>Properties\<close>

subsection \<open>Basic equations\<close>

lemma getClient_eq:
  "getClient cfg w = (Inr (clientConfig cfg), w\<lparr>trace := trace w @ [Knex (clientConfig cfg)]\<rparr>)"
  by (simp add: getClient_def bindE_def emit_def returnE_def)

lemma destroy_eq: "destroy db w = (Inr (), w\<lparr>trace := trace w @ [Destroy]\<rparr>)"
  by (simp add: destroy_def emit_def)

lemma handlebars_compile_eq:
  "handlebars_compile env ne t ctx w =
     (compile env ne t ctx, w\<lparr>trace := trace w @ [Compile ne t ctx]\<rparr>)"
  by (simp add: handlebars_compile_def bindE_def emit_def liftE_def)

lemma gatewayProxyWrapper_eq:
  "gatewayProxyWrapper env cfg cb w =
     (case fnGetGatewayClientTls env (projectGatewayId cfg) of
        Inl e \<Rightarrow> (Inl e, w\<lparr>trace := trace w @ [GetGatewayClientTls (projectGatewayId cfg)]\<rparr>)
      | Inr d \<Rightarrow>
          (case openTunnel env (proxyOptions cfg d) of
             None \<Rightarrow>
               (Inl GatewayError, w\<lparr>trace := trace w @ [GetGatewayClientTls (projectGatewayId cfg)]\<rparr>)
           | Some p \<Rightarrow>
               (case cb ''localhost'' p
                       (w\<lparr>trace := trace w @ [GetGatewayClientTls (projectGatewayId cfg),
                                                TunnelOpen (proxyOptions cfg d) p]\<rparr>) of
                  (r, w') \<Rightarrow> (r, w'\<lparr>trace := trace w' @ [TunnelClose]\<rparr>))))"
  by (simp add: gatewayProxyWrapper_def withGatewayProxy_def bindE_def emit_def liftE_def
      throwE_def finallyE_def split: sum.splits option.splits prod.splits)

subsection \<open>Programs that emit\<close>

lemma emitsI: "(\<And>w. \<exists>evs. trace (snd (m w)) = trace w @ evs \<and> list_all Q evs) \<Longrightarrow> emits Q m"
  by (simp add: emits_def)

lemma emitsD: "emits Q m \<Longrightarrow> \<exists>evs. trace (snd (m w)) = trace w @ evs \<and> list_all Q evs"
  by (simp add: emits_def)

lemma emits_new_events: "emits Q m \<Longrightarrow> list_all Q (new_events m w)"
  using emitsD [of Q m w] by (auto simp: new_events_def)

lemma emits_returnE: "emits Q (returnE x)"
  by (simp add: emits_def returnE_def)

lemma emits_throwE: "emits Q (throwE e)"
  by (simp add: emits_def throwE_def)

lemma emits_liftE: "emits Q (liftE r)"
  by (simp add: emits_def liftE_def)

lemma emits_emit: "Q ev \<Longrightarrow> emits Q (emit ev)"
  by (simp add: emits_def emit_def)

lemma emits_bindE:
  assumes "emits Q m" and "\<And>x. emits Q (f x)"
  shows "emits Q (bindE m f)"
proof (rule emitsI)
  fix w
  obtain r w1 where m: "m w = (r, w1)" by (cases "m w")
  from emitsD [OF assms(1), of w] m obtain evs1
    where e1: "trace w1 = trace w @ evs1" "list_all Q evs1" by auto
  show "\<exists>evs. trace (snd (bindE m f w)) = trace w @ evs \<and> list_all Q evs"
  proof (cases r)
    case (Inl e)
    with m e1 show ?thesis by (simp add: bindE_def)
  next
    case (Inr x)
    from emitsD [OF assms(2), of x w1] obtain evs2
      where e2: "trace (snd (f x w1)) = trace w1 @ evs2" "list_all Q evs2" by auto
    with Inr m e1 have "trace (snd (bindE m f w)) = trace w @ (evs1 @ evs2) \<and> list_all Q (evs1 @ evs2)"
      by (simp add: bindE_def)
    then show ?thesis by blast
  qed
qed

lemma emits_finallyE:
  assumes "emits Q m" and "emits Q fin"
  shows "emits Q (finallyE m fin)"
proof (rule emitsI)
  fix w
  obtain r w1 where m: "m w = (r, w1)" by (cases "m w")
  obtain r2 w2 where f: "fin w1 = (r2, w2)" by (cases "fin w1")
  from emitsD [OF assms(1), of w] m obtain evs1
    where e1: "trace w1 = trace w @ evs1" "list_all Q evs1" by auto
  from emitsD [OF assms(2), of w1] f obtain evs2
    where e2: "trace w2 = trace w1 @ evs2" "list_all Q evs2" by auto
  have "trace (snd (finallyE m fin w)) = trace w @ (evs1 @ evs2) \<and> list_all Q (evs1 @ evs2)"
    using m f e1 e2 by (simp add: finallyE_def split: sum.splits)
  then show "\<exists>evs. trace (snd (finallyE m fin w)) = trace w @ evs \<and> list_all Q evs" by blast
qed

lemma emits_raw: "Q (Raw s) \<Longrightarrow> emits Q (raw env db s)"
  by (auto simp: emits_def raw_def split: sum.splits)

lemma emits_txRaw: "Q (TxRaw s) \<Longrightarrow> emits Q (txRaw env tx s)"
  by (auto simp: emits_def txRaw_def split: sum.splits)

lemma emits_runQueries: "(\<And>s. Q (TxRaw s)) \<Longrightarrow> emits Q (runQueries env qs tx)"
  by (induction qs) (auto intro!: emits_returnE emits_bindE emits_txRaw)

lemma emits_transaction:
  fixes handler :: "knexConfig \<Rightarrow> (unit, 'db, 'l) prog"
  assumes "Q TxBegin" "Q TxCommit" "Q TxRollback" "emits Q (handler db)"
  shows "emits Q (transaction env db handler)"
proof (rule emitsI)
  fix w :: "('db, 'l) world"
  let ?w1 = "w\<lparr>trace := trace w @ [TxBegin]\<rparr>"
  obtain r w2 where h: "handler db ?w1 = (r, w2)" by (cases "handler db ?w1")
  from emitsD [OF assms(4), of ?w1] h obtain evs
    where e: "trace w2 = trace w @ [TxBegin] @ evs" "list_all Q evs" by auto
  show "\<exists>evs. trace (snd (transaction env db handler w)) = trace w @ evs \<and> list_all Q evs"
  proof (cases "connect env db")
    case (Inl e)
    then show ?thesis by (simp add: transaction_def)
  next
    case (Inr u)
    show ?thesis
    proof (cases r)
      case (Inl e')
      have "trace (snd (transaction env db handler w)) = trace w @ (TxBegin # evs @ [TxRollback])
            \<and> list_all Q (TxBegin # evs @ [TxRollback])"
        using Inr Inl h e assms by (simp add: transaction_def)
      then show ?thesis by blast
    next
      case (Inr x)
      have "trace (snd (transaction env db handler w)) = trace w @ (TxBegin # evs @ [TxCommit])
            \<and> list_all Q (TxBegin # evs @ [TxCommit])"
        using \<open>connect env db = Inr u\<close> Inr h e assms by (simp add: transaction_def)
      then show ?thesis by blast
    qed
  qed
qed

lemma emits_getClient: "Q (Knex (clientConfig cfg)) \<Longrightarrow> emits Q (getClient cfg)"
  by (simp add: emits_def getClient_eq)

lemma emits_destroy: "Q Destroy \<Longrightarrow> emits Q (destroy db)"
  by (simp add: emits_def destroy_eq)

lemma emits_handlebars_compile: "Q (Compile ne t ctx) \<Longrightarrow> emits Q (handlebars_compile env ne t ctx)"
  by (simp add: emits_def handlebars_compile_eq)

lemma emits_gatewayProxyWrapper:
  assumes "Q (GetGatewayClientTls (projectGatewayId cfg))" "\<And>opts p. Q (TunnelOpen opts p)" "Q TunnelClose"
    and "\<And>p. emits Q (cb ''localhost'' p)"
  shows "emits Q (gatewayProxyWrapper env cfg cb)"
  unfolding gatewayProxyWrapper_def withGatewayProxy_def
  by (auto intro!: emits_bindE emits_emit emits_liftE emits_finallyE emits_throwE assms
      split: option.splits)

subsection \<open>Routes of the callbacks\<close>

lemma emits_bind_liftE:
  assumes "\<And>x. r = Inr x \<Longrightarrow> emits Q (f x)"
  shows "emits Q (bindE (liftE r) f)"
proof (cases r)
  case (Inl e)
  then show ?thesis by (simp add: emits_def bindE_def liftE_def)
next
  case (Inr x)
  from assms [OF Inr] have "emits Q (f x)" .
  moreover have "bindE (liftE r) f = f x" using Inr by (simp add: bindE_def liftE_def fun_eq_iff)
  ultimately show ?thesis by simp
qed

lemma emits_session_body:
  "emits session_event (raw env db s)"
  "emits session_event (destroy db)"
  "emits session_event (handlebars_compile env ne t ctx)"
  "emits session_event (transaction env db (runQueries env qs))"
  by (auto intro!: emits_raw emits_destroy emits_handlebars_compile emits_transaction emits_runQueries)

lemma bind_getClient_route:
  assumes "\<And>db. emits Q (body db)"
  shows "\<exists>rest. trace (snd (bindE (getClient cfg) body w)) = trace w @ Knex (clientConfig cfg) # rest
            \<and> list_all Q rest"
proof -
  let ?w1 = "w\<lparr>trace := trace w @ [Knex (clientConfig cfg)]\<rparr>"
  from emitsD [OF assms, of "clientConfig cfg" ?w1] obtain evs
    where "trace (snd (body (clientConfig cfg) ?w1)) = trace ?w1 @ evs" "list_all Q evs" by auto
  then show ?thesis by (auto simp: bindE_def getClient_eq)
qed

lemma create_callback_route:
  "\<exists>rest. trace (snd (create_gatewayCallback env cfg u pw ex h p w))
       = trace w @ Knex (clientConfig (cfg\<lparr>port := p, host := h\<rparr>)) # rest \<and> list_all session_event rest"
  unfolding create_gatewayCallback_def
  by (rule bind_getClient_route)
     (auto intro!: emits_finallyE emits_bindE emits_liftE emits_session_body simp: Let_def)

lemma revoke_callback_route:
  "\<exists>rest. trace (snd (revoke_gatewayCallback env cfg u h p w))
       = trace w @ Knex (clientConfig (cfg\<lparr>port := p, host := h\<rparr>)) # rest \<and> list_all session_event rest"
  unfolding revoke_gatewayCallback_def
  by (rule bind_getClient_route)
     (auto intro!: emits_finallyE emits_bindE emits_liftE emits_session_body simp: Let_def)

lemma renew_callback_route:
  "\<exists>rest. trace (snd (renew_gatewayCallback env cfg t u ex h p w))
       = trace w @ Knex (clientConfig (cfg\<lparr>port := p, host := h\<rparr>)) # rest \<and> list_all session_event rest"
  unfolding renew_gatewayCallback_def
  by (rule bind_getClient_route)
     (auto intro!: emits_finallyE emits_bindE emits_liftE emits_session_body emits_returnE simp: Let_def)

lemma emits_assign: "emits Q (\<lambda>w. (Inr (), w\<lparr>locals := v\<rparr>))"
  by (simp add: emits_def)

lemma validateConnection_callback_route:
  "\<exists>rest. trace (snd (validateConnection_gatewayCallback env cfg h p w))
       = trace w @ Knex (clientConfig (cfg\<lparr>port := p, host := h\<rparr>)) # rest \<and> list_all session_event rest"
  unfolding validateConnection_gatewayCallback_def
  by (rule bind_getClient_route)
     (auto intro!: emits_finallyE emits_bindE emits_liftE emits_session_body emits_assign simp: Let_def)

lemma clientConfig_host_port [simp]:
  "conn_host (clientConfig (cfg\<lparr>port := p, host := h\<rparr>)) = h"
  "conn_port (clientConfig (cfg\<lparr>port := p, host := h\<rparr>)) = p"
  "conn_host (clientConfig cfg) = host cfg"
  "conn_port (clientConfig cfg) = port cfg"
  by (simp_all add: clientConfig_def)

lemma proxyOptions_target [simp]:
  "targetHost (proxyOptions cfg d) = host cfg" "targetPort (proxyOptions cfg d) = port cfg"
  by (simp_all add: proxyOptions_def Let_def)

text \<open>Routing of an arbitrary callback.\<close>

lemma direct_routeI:
  assumes "\<exists>rest. trace (snd (cb (host cfg) (port cfg) w)) = trace w @ Knex c # rest \<and> list_all session_event rest"
    and "conn_host c = host cfg" "conn_port c = port cfg"
  shows "direct_route cfg (new_events (cb (host cfg) (port cfg)) w)"
  using assms by (auto simp: direct_route_def new_events_def)

lemma tunnel_routeI:
  assumes cb: "\<And>p w. \<exists>rest. trace (snd (cb ''localhost'' p w)) = trace w @ Knex (c p) # rest \<and> list_all session_event rest"
    and c: "\<And>p. conn_host (c p) = ''localhost''" "\<And>p. conn_port (c p) = p"
  shows "tunnel_route env cfg (new_events (gatewayProxyWrapper env cfg cb) w)"
proof (cases "fnGetGatewayClientTls env (projectGatewayId cfg)")
  case (Inl e)
  then show ?thesis
    by (simp add: gatewayProxyWrapper_eq new_events_def tunnel_route_def)
next
  case (Inr d)
  show ?thesis
  proof (cases "openTunnel env (proxyOptions cfg d)")
    case None
    with Inr show ?thesis
      by (simp add: gatewayProxyWrapper_eq new_events_def tunnel_route_def)
  next
    case (Some p)
    let ?w1 = "w\<lparr>trace := trace w @ [GetGatewayClientTls (projectGatewayId cfg),
                                       TunnelOpen (proxyOptions cfg d) p]\<rparr>"
    obtain res w2 where run: "cb ''localhost'' p ?w1 = (res, w2)"
      by (cases "cb ''localhost'' p ?w1")
    from cb [of p ?w1] run obtain rest
      where r: "trace w2 = trace ?w1 @ Knex (c p) # rest" "list_all session_event rest"
      by auto
    have "new_events (gatewayProxyWrapper env cfg cb) w =
            GetGatewayClientTls (projectGatewayId cfg) # TunnelOpen (proxyOptions cfg d) p
              # Knex (c p) # (rest @ [TunnelClose])"
      using Inr Some r run by (simp add: gatewayProxyWrapper_eq new_events_def)
    then show ?thesis
      using Some r c by (simp add: tunnel_route_def)
  qed
qed

lemma new_events_bind_return [simp]:
  "new_events (bindE m (\<lambda>_. returnE x)) w = new_events m w"
  by (simp add: new_events_def bindE_def returnE_def split: prod.splits sum.splits)

lemma new_events_bind_lift_Inr [simp]:
  "new_events (bindE (liftE (Inr x)) f) w = new_events (f x) w"
  by (simp add: new_events_def bindE_def liftE_def)

lemma create_route:
  assumes "validateProviderInputs env inputs = Inr cfg"
  shows "if truthy (projectGatewayId cfg)
         then tunnel_route env cfg (new_events (create env inputs ex) w)
         else direct_route cfg (new_events (create env inputs ex) w)"
  using assms
  by (auto simp: create_def Let_def intro!: tunnel_routeI direct_routeI create_callback_route)

lemma revoke_route:
  assumes "validateProviderInputs env inputs = Inr cfg"
  shows "if truthy (projectGatewayId cfg)
         then tunnel_route env cfg (new_events (revoke env inputs u) w)
         else direct_route cfg (new_events (revoke env inputs u) w)"
  using assms
  by (auto simp: revoke_def Let_def intro!: tunnel_routeI direct_routeI revoke_callback_route)

lemma renew_route:
  assumes "validateProviderInputs env inputs = Inr cfg" "truthy (renewStatement cfg)"
  shows "if truthy (projectGatewayId cfg)
         then tunnel_route env cfg (new_events (renew env inputs u ex) w)
         else direct_route cfg (new_events (renew env inputs u ex) w)"
  using assms
  by (auto simp: renew_def Let_def truthy_def split: option.splits
      intro!: tunnel_routeI direct_routeI renew_callback_route)

subsection \<open>The loop and the transaction\<close>


lemma tx_run_TxRaw [simp]: "tx_run Within (map TxRaw qs) = Some Within"
  by (induction qs) auto

lemma statements_append [simp]: "statements (xs @ ys) = statements xs @ statements ys"
  by (induction xs rule: statements.induct) auto

lemma statements_TxRaw [simp]: "statements (map TxRaw qs) = qs"
  by (induction qs) auto

lemma batch_result_bound: "batch_result env db b qs = Inl (k, e, s) \<Longrightarrow> k < length qs"
  by (induction qs arbitrary: b k) (auto split: sum.splits prod.splits)

lemma runQueries_exact:
  "runQueries env qs tx w =
     (case batch_result env tx (backend w) qs of
        Inr b' \<Rightarrow> (Inr (), w\<lparr>backend := b', trace := trace w @ map TxRaw qs\<rparr>)
      | Inl (k, e, s) \<Rightarrow>
          (Inl e, w\<lparr>backend := s, trace := trace w @ map TxRaw (take (Suc k) qs)\<rparr>))"
proof (induction qs arbitrary: w)
  case Nil
  show ?case by (simp add: returnE_def)
next
  case (Cons q qs)
  show ?case
  proof (cases "exec env tx (backend w) q")
    case (Inl e)
    then show ?thesis by (simp add: bindE_def txRaw_def)
  next
    case (Inr b1)
    let ?w1 = "w\<lparr>backend := b1, trace := trace w @ [TxRaw q]\<rparr>"
    have "runQueries env (q # qs) tx w = runQueries env qs tx ?w1"
      using Inr by (simp add: bindE_def txRaw_def)
    then show ?thesis
      using Inr Cons.IH [of ?w1] by (simp split: sum.splits prod.splits)
  qed
qed


lemma transaction_exact:
  assumes "connect env db = Inr u"
  shows "transaction env db (runQueries env qs) w =
     (case batch_result env db (backend w) qs of
        Inr b' \<Rightarrow>
          (Inr (), w\<lparr>backend := b', trace := trace w @ TxBegin # map TxRaw qs @ [TxCommit]\<rparr>)
      | Inl (k, e, s) \<Rightarrow>
          (Inl e, w\<lparr>backend := rollback env db (backend w) s,
                    trace := trace w @ TxBegin # map TxRaw (take (Suc k) qs) @ [TxRollback]\<rparr>))"
  using assms by (simp add: transaction_def runQueries_exact split: sum.splits prod.splits)

subsection \<open>Atomic outcomes\<close>



lemma TxCommit_notin_TxRaw [simp]: "TxCommit \<notin> TxRaw ` A" "TxRollback \<notin> TxRaw ` A"
  by auto


lemma create_callback_run:
  assumes "toISOString env ex = Inr expiration"
    and "compile env True (creationStatement cfg)
           [(''username'', u), (''password'', pw), (''expiration'', expiration),
            (''database'', database cfg)] = Inr rendered"
  shows "create_gatewayCallback env cfg u pw ex h p w =
     (case transaction env (clientConfig (cfg\<lparr>port := p, host := h\<rparr>))
             (runQueries env (filter_Boolean (split_on CHR '';'' rendered)))
             (w\<lparr>trace := trace w @
                [Knex (clientConfig (cfg\<lparr>port := p, host := h\<rparr>)),
                 Compile True (creationStatement cfg)
                   [(''username'', u), (''password'', pw), (''expiration'', expiration),
                    (''database'', database cfg)]]\<rparr>) of
        (r, w') \<Rightarrow> (r, w'\<lparr>trace := trace w' @ [Destroy]\<rparr>))"
  using assms
  by (simp add: create_gatewayCallback_def bindE_def getClient_eq finallyE_def liftE_def
      destroy_eq handlebars_compile_eq Let_def split: prod.splits)

lemma create_callback_exact:
  assumes "toISOString env ex = Inr expiration"
    and "compile env True (creationStatement cfg)
           [(''username'', u), (''password'', pw), (''expiration'', expiration),
            (''database'', database cfg)] = Inr rendered"
    and "connect env (clientConfig (cfg\<lparr>port := p, host := h\<rparr>)) = Inr v"
  shows "create_gatewayCallback env cfg u pw ex h p w =
     (case batch_result env (clientConfig (cfg\<lparr>port := p, host := h\<rparr>)) (backend w)
             (filter_Boolean (split_on CHR '';'' rendered)) of
        Inr b' \<Rightarrow>
          (Inr (),
           w\<lparr>backend := b',
             trace := trace w @
               [Knex (clientConfig (cfg\<lparr>port := p, host := h\<rparr>)),
                Compile True (creationStatement cfg)
                  [(''username'', u), (''password'', pw), (''expiration'', expiration),
                   (''database'', database cfg)],
                TxBegin] @
               map TxRaw (filter_Boolean (split_on CHR '';'' rendered)) @ [TxCommit, Destroy]\<rparr>)
      | Inl (k, e, s) \<Rightarrow>
          (Inl e,
           w\<lparr>backend := rollback env (clientConfig (cfg\<lparr>port := p, host := h\<rparr>)) (backend w) s,
             trace := trace w @
               [Knex (clientConfig (cfg\<lparr>port := p, host := h\<rparr>)),
                Compile True (creationStatement cfg)
                  [(''username'', u), (''password'', pw), (''expiration'', expiration),
                   (''database'', database cfg)],
                TxBegin] @
               map TxRaw (take (Suc k) (filter_Boolean (split_on CHR '';'' rendered))) @
               [TxRollback, Destroy]\<rparr>))"
  unfolding create_callback_run [OF assms(1,2)] transaction_exact [OF assms(3)]
  by (simp split: sum.splits prod.splits)




lemma routedClient_cases:
  assumes "routedClient env cfg = Some c"
  obtains (direct) "\<not> truthy (projectGatewayId cfg)" "c = clientConfig cfg"
  | (tunnel) d p where "truthy (projectGatewayId cfg)"
      "fnGetGatewayClientTls env (projectGatewayId cfg) = Inr d"
      "openTunnel env (proxyOptions cfg d) = Some p"
      "c = clientConfig (cfg\<lparr>port := p, host := ''localhost''\<rparr>)"
  using assms by (auto simp: routedClient_def split: if_splits sum.splits option.splits)

lemma same_host_port [simp]: "cfg\<lparr>port := port cfg, host := host cfg\<rparr> = cfg"
  by simp

lemma create_exact:
  assumes v: "validateProviderInputs env inputs = Inr cfg"
    and q: "creationQueries env cfg (generateUsername (client cfg) (random env 0))
              (generatePassword (client cfg) (random env 1)) expireAt = Some qs"
    and rc: "routedClient env cfg = Some c"
    and cn: "connect env c = Inr u"
  shows "case create env inputs expireAt w of
     (r, w') \<Rightarrow>
       (case batch_result env c (backend w) qs of
          Inr b' \<Rightarrow>
            r = Inr \<lparr>entityId = generateUsername (client cfg) (random env 0),
                     data = \<lparr>DB_USERNAME = generateUsername (client cfg) (random env 0),
                             DB_PASSWORD = generatePassword (client cfg) (random env 1)\<rparr>\<rparr> \<and>
            backend w' = b' \<and>
            statements (new_events (create env inputs expireAt) w) = qs \<and>
            TxCommit \<in> set (new_events (create env inputs expireAt) w) \<and>
            TxRollback \<notin> set (new_events (create env inputs expireAt) w)
        | Inl (k, e, s) \<Rightarrow>
            r = Inl e \<and>
            backend w' = rollback env c (backend w) s \<and>
            statements (new_events (create env inputs expireAt) w) = take (Suc k) qs \<and>
            TxRollback \<in> set (new_events (create env inputs expireAt) w) \<and>
            TxCommit \<notin> set (new_events (create env inputs expireAt) w))"
proof -
  let ?u = "generateUsername (client cfg) (random env 0)"
  let ?pw = "generatePassword (client cfg) (random env 1)"
  let ?cb = "create_gatewayCallback env cfg ?u ?pw expireAt"
  from q obtain expiration rendered where
    t: "toISOString env expireAt = Inr expiration" and
    r: "compile env True (creationStatement cfg)
          [(''username'', ?u), (''password'', ?pw), (''expiration'', expiration),
           (''database'', database cfg)] = Inr rendered" and
    qs: "qs = filter_Boolean (split_on CHR '';'' rendered)"
    by (auto simp: creationQueries_def split: sum.splits)
  have run: "create env inputs expireAt w =
          (case (if truthy (projectGatewayId cfg) then gatewayProxyWrapper env cfg ?cb
                 else ?cb (host cfg) (port cfg)) w of
             (Inl e, w') \<Rightarrow> (Inl e, w')
           | (Inr _, w') \<Rightarrow> (Inr \<lparr>entityId = ?u, data = \<lparr>DB_USERNAME = ?u, DB_PASSWORD = ?pw\<rparr>\<rparr>, w'))"
    using v by (simp add: create_def bindE_def liftE_def returnE_def Let_def del: One_nat_def
        split: prod.splits sum.splits)
  from rc show ?thesis
  proof (cases rule: routedClient_cases)
    case direct
    have cn': "connect env (clientConfig (cfg\<lparr>port := port cfg, host := host cfg\<rparr>)) = Inr u"
      using cn direct by simp
    show ?thesis
      using direct
      unfolding new_events_def run
      by (simp add: create_callback_exact [OF t r cn'] qs [symmetric]
          split: sum.splits prod.splits del: One_nat_def)
  next
    case (tunnel d p)
    have cn': "connect env (clientConfig (cfg\<lparr>port := p, host := ''localhost''\<rparr>)) = Inr u"
      using cn tunnel by simp
    show ?thesis
      using tunnel
      unfolding new_events_def run
      by (simp add: gatewayProxyWrapper_eq create_callback_exact [OF t r cn'] qs [symmetric]
          split: sum.splits prod.splits del: One_nat_def)
  qed
qed

lemma customAlphabet_length: "length (customAlphabet a n rnd) = n"
  by (simp add: customAlphabet_def)

lemma customAlphabet_subset: "a \<noteq> [] \<Longrightarrow> set (customAlphabet a n rnd) \<subseteq> set a"
  by (auto simp: customAlphabet_def)

lemma customAlphabet_reaches:
  assumes "c \<in> set a" "0 < n"
  shows "\<exists>rnd. c \<in> set (customAlphabet a n rnd)"
proof -
  from assms(1) obtain i where i: "i < length a" "a ! i = c"
    by (auto simp: in_set_conv_nth)
  have "customAlphabet a n (\<lambda>_::nat. i) ! 0 = c"
    using i assms(2) by (simp add: customAlphabet_def)
  moreover have "0 < length (customAlphabet a n (\<lambda>_::nat. i))"
    using assms(2) by (simp add: customAlphabet_length)
  ultimately have "c \<in> set (customAlphabet a n (\<lambda>_::nat. i))"
    by (metis nth_mem)
  then show ?thesis by blast
qed

lemma charset_card: "card (set charset) = 68"
proof -
  have "distinct charset" by (simp add: charset_def)
  moreover have "length charset = 68" by (simp add: charset_def)
  ultimately show ?thesis by (simp add: distinct_card)
qed

lemma alphaNumeric_chars: "list_all isAlphaNumeric alphaNumeric"
  by (simp add: alphaNumeric_def isAlphaNumeric_def isDigit_def isUpper_def isLower_def)

lemma alphaNumeric_upper:
  "list_all (\<lambda>c. isAlphaNumeric (toUpperCase_char c) \<and> \<not> isLower (toUpperCase_char c)) alphaNumeric"
  by (simp add: alphaNumeric_def isAlphaNumeric_def isDigit_def isUpper_def isLower_def
      toUpperCase_char_def)

lemma alphaNumericNanoId_set: "set (alphaNumericNanoId n rnd) \<subseteq> set alphaNumeric"
  unfolding alphaNumericNanoId_def
  by (rule customAlphabet_subset) (simp add: alphaNumeric_def)

subsection \<open>Credentials (C4)\<close>

text \<open>
  C4, as stated, fails on the size of the alphabet: the alphabet of the password
  generator has 68 distinct characters (26 lower-case letters, 26 upper-case letters,
  10 digits and the 6 characters \<^verbatim>\<open>- _ . ~ ! *\<close>), not 69.
\<close>

theorem charset_not_69: "length charset = 68 \<and> card (set charset) = 68 \<and> card (set charset) \<noteq> 69"
  using charset_card by (simp add: charset_def)

text \<open>
  C4, amended: for every backend kind and every random source, the generated password
  consists solely of characters of a fixed alphabet of 68 characters, each of which can
  occur, and has length 48, except for the Oracle dialect, where it has length 30; the
  generated user name has 32 alphanumeric characters, none of them a lower-case letter
  for the Oracle dialect.
\<close>

theorem generated_credentials:
  "set (generatePassword provider rnd) \<subseteq> set charset \<and>
   card (set charset) = 68 \<and>
   (\<forall>c \<in> set charset. \<exists>rnd'. c \<in> set (generatePassword provider rnd')) \<and>
   length (generatePassword provider rnd) = (if provider = Oracle then 30 else 48) \<and>
   length (generateUsername provider rnd) = 32 \<and>
   list_all isAlphaNumeric (generateUsername provider rnd) \<and>
   (provider = Oracle \<longrightarrow> list_all (\<lambda>c. \<not> isLower c) (generateUsername provider rnd))"
proof -
  have ne: "charset \<noteq> []" by (simp add: charset_def)
  have p1: "set (generatePassword provider rnd) \<subseteq> set charset"
    using customAlphabet_subset [OF ne] by (simp add: generatePassword_def Let_def)
  have p2: "\<forall>c \<in> set charset. \<exists>rnd'. c \<in> set (generatePassword provider rnd')"
    using customAlphabet_reaches [of _ charset] by (simp add: generatePassword_def Let_def)
  have p3: "length (generatePassword provider rnd) = (if provider = Oracle then 30 else 48)"
    by (simp add: generatePassword_def Let_def customAlphabet_length)
  have u1: "length (generateUsername provider rnd) = 32"
    by (simp add: generateUsername_def toUpperCase_def alphaNumericNanoId_def customAlphabet_length)
  have an: "\<forall>c \<in> set (alphaNumericNanoId 32 rnd).
              isAlphaNumeric c \<and> isAlphaNumeric (toUpperCase_char c) \<and> \<not> isLower (toUpperCase_char c)"
    using alphaNumericNanoId_set [of 32 rnd] alphaNumeric_chars alphaNumeric_upper
    by (auto simp: list_all_iff)
  have u2: "list_all isAlphaNumeric (generateUsername provider rnd)"
    using an by (simp add: generateUsername_def toUpperCase_def list_all_iff)
  have u3: "provider = Oracle \<longrightarrow> list_all (\<lambda>c. \<not> isLower c) (generateUsername provider rnd)"
    using an by (simp add: generateUsername_def toUpperCase_def list_all_iff)
  from p1 p2 p3 u1 u2 u3 charset_card show ?thesis by blast
qed

text \<open>The statement of C4 at a concrete random source, for Oracle and for another dialect.\<close>

theorem generated_credentials_witness:
  "length (generatePassword Oracle (\<lambda>i. 7 * i)) = 30 \<and>
   length (generatePassword MsSQL (\<lambda>i. 7 * i)) = 48 \<and>
   list_all (\<lambda>c. \<not> isLower c) (generateUsername Oracle (\<lambda>i. 7 * i)) \<and>
   (\<exists>rnd'. CHR ''*'' \<in> set (generatePassword Oracle rnd'))"
proof -
  have "CHR ''*'' \<in> set charset" by (simp add: charset_def)
  then show ?thesis
    using generated_credentials [of Oracle "\<lambda>i. 7 * i"] generated_credentials [of MsSQL "\<lambda>i. 7 * i"]
    by simp
qed

subsection \<open>Client configuration (C9)\<close>

text \<open>
  C9: \<^verbatim>\<open>$getClient\<close> constructs the client from the configuration \<open>clientConfig\<close>.
  When the configuration supplies a CA certificate, the \<^verbatim>\<open>ssl\<close> option carries the
  certificate with \<^verbatim>\<open>rejectUnauthorized\<close> set to false; when it supplies none, no
  \<^verbatim>\<open>ssl\<close> option is set. The transport options are set for the MsSQL dialect only,
  and there \<^verbatim>\<open>trustServerCertificate\<close> is true exactly when no CA is supplied.
\<close>

theorem getClient_tls:
  "getClient cfg w = (Inr (clientConfig cfg), w\<lparr>trace := trace w @ [Knex (clientConfig cfg)]\<rparr>) \<and>
   (truthy (ca cfg) \<longrightarrow>
      conn_ssl (clientConfig cfg) = Some \<lparr>rejectUnauthorized = False, ssl_ca = ca cfg\<rparr>) \<and>
   (\<not> truthy (ca cfg) \<longrightarrow> conn_ssl (clientConfig cfg) = None) \<and>
   (client cfg = MsSQL \<longrightarrow>
      conn_options (clientConfig cfg) =
        Some \<lparr>trustServerCertificate = \<not> truthy (ca cfg),
              cryptoCredentialsDetails = (if truthy (ca cfg) then Some (ca cfg) else None)\<rparr>) \<and>
   (client cfg \<noteq> MsSQL \<longrightarrow> conn_options (clientConfig cfg) = None)"
  by (simp add: getClient_eq clientConfig_def)

text \<open>The statement of C9 on the test configuration, with and without a CA, and for MsSQL.\<close>

theorem getClient_tls_witness:
  "truthy (ca (demoConfig\<lparr>ca := Some ''PEM''\<rparr>)) \<and>
   conn_ssl (clientConfig (demoConfig\<lparr>ca := Some ''PEM''\<rparr>)) =
     Some \<lparr>rejectUnauthorized = False, ssl_ca = Some ''PEM''\<rparr> \<and>
   \<not> truthy (ca demoConfig) \<and> conn_ssl (clientConfig demoConfig) = None \<and>
   client (demoConfig\<lparr>client := MsSQL\<rparr>) = MsSQL \<and>
   conn_options (clientConfig (demoConfig\<lparr>client := MsSQL\<rparr>)) =
      Some \<lparr>trustServerCertificate = True, cryptoCredentialsDetails = None\<rparr> \<and>
   client demoConfig \<noteq> MsSQL \<and> conn_options (clientConfig demoConfig) = None"
proof -
  have a: "truthy (ca (demoConfig\<lparr>ca := Some ''PEM''\<rparr>))" "\<not> truthy (ca demoConfig)"
    "client (demoConfig\<lparr>client := MsSQL\<rparr>) = MsSQL" "client demoConfig \<noteq> MsSQL"
    "ca (demoConfig\<lparr>client := MsSQL\<rparr>) = None"
    by (simp_all add: demoConfig_def truthy_def)
  show ?thesis
    using a getClient_tls [of "demoConfig\<lparr>ca := Some ''PEM''\<rparr>" world0]
      getClient_tls [of demoConfig world0] getClient_tls [of "demoConfig\<lparr>client := MsSQL\<rparr>" world0]
    by (simp add: truthy_def)
qed

subsection \<open>Renewal without a template (C7)\<close>

text \<open>
  C7: for a validated configuration without a renewal statement, \<^verbatim>\<open>renew\<close> returns
  the entity identifier unchanged and leaves the world as it was: the trace gains no
  event (no session, no template, no gateway call) and the backend is untouched.
\<close>

theorem renew_without_template:
  assumes "validateProviderInputs env inputs = Inr cfg" and "\<not> truthy (renewStatement cfg)"
  shows "renew env inputs entity expireAt w = (Inr entity, w)"
  using assms
  by (simp add: renew_def bindE_def liftE_def returnE_def truthy_def split: option.splits)

text \<open>The statement of C7 on the test configuration with its renewal statement removed.\<close>

theorem renew_without_template_witness:
  "validateProviderInputs demoEnv (demoConfig\<lparr>renewStatement := None\<rparr>)
     = Inr (demoConfig\<lparr>renewStatement := None\<rparr>) \<and>
   \<not> truthy (renewStatement (demoConfig\<lparr>renewStatement := None\<rparr>)) \<and>
   renew demoEnv (demoConfig\<lparr>renewStatement := None\<rparr>) ''lease1'' 0 world0 = (Inr ''lease1'', world0)"
proof -
  have v: "validateProviderInputs demoEnv (demoConfig\<lparr>renewStatement := None\<rparr>)
     = Inr (demoConfig\<lparr>renewStatement := None\<rparr>)"
    by (simp add: validateProviderInputs_def demoEnv_def demoConfig_def verifyHostInputValidity_def)
  have t: "\<not> truthy (renewStatement (demoConfig\<lparr>renewStatement := None\<rparr>))"
    by (simp add: truthy_def)
  from renew_without_template [OF v t] v t show ?thesis by simp
qed

subsection \<open>The calls to the template library\<close>

lemma compile_calls_simps [simp]:
  "compile_calls P (Compile ne t ctx) = P ne t ctx"
  "compile_calls P (GetGatewayClientTls g)"
  "compile_calls P (TunnelOpen opts p)"
  "compile_calls P TunnelClose"
  "compile_calls P (Knex c)"
  "compile_calls P (Raw s)"
  "compile_calls P TxBegin"
  "compile_calls P (TxRaw s)"
  "compile_calls P TxCommit"
  "compile_calls P TxRollback"
  "compile_calls P Destroy"
  by (simp_all add: compile_calls_def)

lemmas emits_intros =
  emits_returnE emits_throwE emits_liftE emits_emit emits_bindE emits_finallyE emits_raw
  emits_txRaw emits_runQueries emits_transaction emits_getClient emits_destroy
  emits_handlebars_compile emits_gatewayProxyWrapper emits_assign

lemma emits_revoke:
  assumes "\<And>cfg. validateProviderInputs env inputs = Inr cfg \<Longrightarrow>
             P False (revocationStatement cfg) [(''username'', entity), (''database'', database cfg)]"
  shows "emits (compile_calls P) (revoke env inputs entity)"
  unfolding revoke_def revoke_gatewayCallback_def Let_def
  by (rule emits_bind_liftE) (auto intro!: emits_intros assms)

lemma emits_renew:
  assumes "\<And>cfg template expiration.
             validateProviderInputs env inputs = Inr cfg \<Longrightarrow>
             renewStatement cfg = Some template \<Longrightarrow>
             toISOString env expireAt = Inr expiration \<Longrightarrow>
             P False template [(''username'', entity), (''expiration'', expiration),
                               (''database'', database cfg)]"
  shows "emits (compile_calls P) (renew env inputs entity expireAt)"
  unfolding renew_def renew_gatewayCallback_def Let_def
  by (rule emits_bind_liftE)
     (auto intro!: emits_intros emits_bind_liftE assms split: option.splits)

lemma emits_create:
  assumes "\<And>cfg expiration.
             validateProviderInputs env inputs = Inr cfg \<Longrightarrow>
             toISOString env expireAt = Inr expiration \<Longrightarrow>
             P True (creationStatement cfg)
               [(''username'', generateUsername (client cfg) (random env 0)),
                (''password'', generatePassword (client cfg) (random env 1)),
                (''expiration'', expiration), (''database'', database cfg)]"
  shows "emits (compile_calls P) (create env inputs expireAt)"
  unfolding create_def create_gatewayCallback_def Let_def
  by (rule emits_bind_liftE)
     (auto intro!: emits_intros emits_bind_liftE assms simp del: One_nat_def)

subsection \<open>Programs that call the template library\<close>

lemma compiles_append [simp]: "compiles (xs @ ys) = compiles xs @ compiles ys"
  by (induction xs rule: compiles.induct) auto

lemma compiles_quiet: "list_all (\<lambda>ev. compiles [ev] = []) evs \<Longrightarrow> compiles evs = []"
proof (induction evs)
  case Nil
  then show ?case by simp
next
  case (Cons ev evs)
  then show ?case by (cases ev) simp_all
qed

lemma compilingI:
  "(\<And>w. \<exists>evs. trace (snd (m w)) = trace w @ evs \<and> compiles evs = calls) \<Longrightarrow> compiling calls m"
  by (simp add: compiling_def)

lemma compilingD:
  "compiling calls m \<Longrightarrow> \<exists>evs. trace (snd (m w)) = trace w @ evs \<and> compiles evs = calls"
  by (simp add: compiling_def)

lemma compiling_new_events: "compiling calls m \<Longrightarrow> compiles (new_events m w) = calls"
  using compilingD [of calls m w] by (auto simp: new_events_def)

lemma compiling_quiet: "emits (\<lambda>ev. compiles [ev] = []) m \<Longrightarrow> compiling [] m"
  unfolding compiling_def
proof
  fix w
  assume "emits (\<lambda>ev. compiles [ev] = []) m"
  from emitsD [OF this, of w] obtain evs
    where "trace (snd (m w)) = trace w @ evs" "list_all (\<lambda>ev. compiles [ev] = []) evs" by blast
  then show "\<exists>evs. trace (snd (m w)) = trace w @ evs \<and> compiles evs = []"
    using compiles_quiet by blast
qed

lemma compiling_bind_quiet:
  assumes "compiling calls m" and "\<And>x. compiling [] (f x)"
  shows "compiling calls (bindE m f)"
proof (rule compilingI)
  fix w
  obtain r w1 where m: "m w = (r, w1)" by (cases "m w")
  from compilingD [OF assms(1), of w] m obtain evs1
    where e1: "trace w1 = trace w @ evs1" "compiles evs1 = calls" by auto
  show "\<exists>evs. trace (snd (bindE m f w)) = trace w @ evs \<and> compiles evs = calls"
  proof (cases r)
    case (Inl e)
    with m e1 show ?thesis by (simp add: bindE_def)
  next
    case (Inr x)
    from compilingD [OF assms(2), of x w1] obtain evs2
      where e2: "trace (snd (f x w1)) = trace w1 @ evs2" "compiles evs2 = []" by auto
    with Inr m e1 have "trace (snd (bindE m f w)) = trace w @ (evs1 @ evs2) \<and>
        compiles (evs1 @ evs2) = calls"
      by (simp add: bindE_def)
    then show ?thesis by blast
  qed
qed

lemma compiling_finallyE:
  assumes "compiling calls m" and "compiling [] fin"
  shows "compiling calls (finallyE m fin)"
proof (rule compilingI)
  fix w
  obtain r w1 where m: "m w = (r, w1)" by (cases "m w")
  obtain r2 w2 where f: "fin w1 = (r2, w2)" by (cases "fin w1")
  from compilingD [OF assms(1), of w] m obtain evs1
    where e1: "trace w1 = trace w @ evs1" "compiles evs1 = calls" by auto
  from compilingD [OF assms(2), of w1] f obtain evs2
    where e2: "trace w2 = trace w1 @ evs2" "compiles evs2 = []" by auto
  have "trace (snd (finallyE m fin w)) = trace w @ (evs1 @ evs2) \<and> compiles (evs1 @ evs2) = calls"
    using m f e1 e2 by (simp add: finallyE_def split: sum.splits)
  then show "\<exists>evs. trace (snd (finallyE m fin w)) = trace w @ evs \<and> compiles evs = calls"
    by blast
qed

lemma compiling_getClient:
  fixes f :: "knexConfig \<Rightarrow> ('a, 'db, 'l) prog"
  assumes "compiling calls (f (clientConfig cfg))"
  shows "compiling calls (bindE (getClient cfg) f)"
proof (rule compilingI)
  fix w :: "('db, 'l) world"
  let ?w1 = "w\<lparr>trace := trace w @ [Knex (clientConfig cfg)]\<rparr>"
  from compilingD [OF assms, of ?w1] obtain evs
    where "trace (snd (f (clientConfig cfg) ?w1)) = trace ?w1 @ evs" "compiles evs = calls"
    by auto
  then have "trace (snd (bindE (getClient cfg) f w)) = trace w @ (Knex (clientConfig cfg) # evs) \<and>
      compiles (Knex (clientConfig cfg) # evs) = calls"
    by (simp add: bindE_def getClient_eq)
  then show "\<exists>evs. trace (snd (bindE (getClient cfg) f w)) = trace w @ evs \<and> compiles evs = calls"
    by blast
qed

lemma compiling_lift:
  assumes "r = Inr x" and "compiling calls (f x)"
  shows "compiling calls (bindE (liftE r) f)"
proof -
  have "bindE (liftE r) f = f x"
    using assms(1) by (simp add: bindE_def liftE_def fun_eq_iff)
  with assms(2) show ?thesis by simp
qed

lemma compiling_compile:
  fixes f :: "string \<Rightarrow> ('a, 'db, 'l) prog"
  assumes "\<And>x. compiling [] (f x)"
  shows "compiling [(ne, t, ctx)] (bindE (handlebars_compile env ne t ctx) f)"
proof (rule compilingI)
  fix w :: "('db, 'l) world"
  let ?w1 = "w\<lparr>trace := trace w @ [Compile ne t ctx]\<rparr>"
  show "\<exists>evs. trace (snd (bindE (handlebars_compile env ne t ctx) f w)) = trace w @ evs \<and>
          compiles evs = [(ne, t, ctx)]"
  proof (cases "compile env ne t ctx")
    case (Inl e)
    then have "trace (snd (bindE (handlebars_compile env ne t ctx) f w)) = trace w @ [Compile ne t ctx]
        \<and> compiles [Compile ne t ctx] = [(ne, t, ctx)]"
      by (simp add: bindE_def handlebars_compile_eq)
    then show ?thesis by blast
  next
    case (Inr x)
    from compilingD [OF assms, of x ?w1] obtain evs
      where "trace (snd (f x ?w1)) = trace ?w1 @ evs" "compiles evs = []" by auto
    with Inr have "trace (snd (bindE (handlebars_compile env ne t ctx) f w))
          = trace w @ (Compile ne t ctx # evs) \<and> compiles (Compile ne t ctx # evs) = [(ne, t, ctx)]"
      by (simp add: bindE_def handlebars_compile_eq)
    then show ?thesis by blast
  qed
qed

lemma compiling_wrapper:
  fixes cb :: "string \<Rightarrow> nat \<Rightarrow> (unit, 'db, 'l) prog"
  assumes "fnGetGatewayClientTls env (projectGatewayId cfg) = Inr d"
    and "openTunnel env (proxyOptions cfg d) = Some p"
    and "compiling calls (cb ''localhost'' p)"
  shows "compiling calls (gatewayProxyWrapper env cfg cb)"
proof (rule compilingI)
  fix w :: "('db, 'l) world"
  let ?g = "[GetGatewayClientTls (projectGatewayId cfg), TunnelOpen (proxyOptions cfg d) p]"
  let ?w1 = "w\<lparr>trace := trace w @ ?g\<rparr>"
  obtain r w2 where run: "cb ''localhost'' p ?w1 = (r, w2)" by (cases "cb ''localhost'' p ?w1")
  from compilingD [OF assms(3), of ?w1] run obtain evs
    where evs: "trace w2 = trace ?w1 @ evs" "compiles evs = calls" by auto
  have "trace (snd (gatewayProxyWrapper env cfg cb w)) = trace w @ (?g @ evs @ [TunnelClose]) \<and>
      compiles (?g @ evs @ [TunnelClose]) = calls"
    using assms(1,2) run evs by (simp add: gatewayProxyWrapper_eq)
  then show "\<exists>evs. trace (snd (gatewayProxyWrapper env cfg cb w)) = trace w @ evs \<and>
      compiles evs = calls"
    by blast
qed

lemma compiling_session:
  "compiling [] (transaction env db (runQueries env qs))"
  "compiling [] (destroy db)"
  "compiling [] (returnE x)"
  by (auto intro!: compiling_quiet emits_transaction emits_runQueries emits_destroy emits_returnE)

lemma create_callback_compiling:
  assumes "toISOString env ex = Inr expiration"
  shows "compiling
     [(True, creationStatement cfg,
       [(''username'', u), (''password'', pw), (''expiration'', expiration),
        (''database'', database cfg)])]
     (create_gatewayCallback env cfg u pw ex h p)"
  unfolding create_gatewayCallback_def
  by (intro compiling_getClient compiling_finallyE compiling_lift [OF assms] compiling_compile)
     (simp_all add: Let_def compiling_session)

lemma revoke_callback_compiling:
  "compiling [(False, revocationStatement cfg, [(''username'', u), (''database'', database cfg)])]
     (revoke_gatewayCallback env cfg u h p)"
  unfolding revoke_gatewayCallback_def
  by (intro compiling_getClient compiling_finallyE compiling_compile)
     (simp_all add: Let_def compiling_session)

lemma renew_callback_compiling:
  assumes "toISOString env ex = Inr expiration"
  shows "compiling
     [(False, t, [(''username'', u), (''expiration'', expiration), (''database'', database cfg)])]
     (renew_gatewayCallback env cfg t u ex h p)"
  unfolding renew_gatewayCallback_def
  by (intro compiling_getClient compiling_lift [OF assms] compiling_compile compiling_finallyE)
     (simp_all add: Let_def compiling_session)

lemma routed_compiling:
  assumes "routedClient env cfg = Some c" and "\<And>h p. compiling calls (cb h p)"
  shows "compiling calls (if truthy (projectGatewayId cfg) then gatewayProxyWrapper env cfg cb
                          else cb (host cfg) (port cfg))"
  using assms(1)
proof (cases rule: routedClient_cases)
  case direct
  with assms(2) show ?thesis by simp
next
  case (tunnel d p)
  with assms(2) show ?thesis by (simp add: compiling_wrapper)
qed

lemma create_compiles:
  assumes "validateProviderInputs env inputs = Inr cfg" "routedClient env cfg = Some c"
    "toISOString env expireAt = Inr expiration"
  shows "compiles (new_events (create env inputs expireAt) w) =
     [(True, creationStatement cfg,
       [(''username'', generateUsername (client cfg) (random env 0)),
        (''password'', generatePassword (client cfg) (random env 1)),
        (''expiration'', expiration), (''database'', database cfg)])]"
proof (rule compiling_new_events)
  show "compiling
     [(True, creationStatement cfg,
       [(''username'', generateUsername (client cfg) (random env 0)),
        (''password'', generatePassword (client cfg) (random env 1)),
        (''expiration'', expiration), (''database'', database cfg)])]
     (create env inputs expireAt)"
    unfolding create_def Let_def
    by (intro compiling_lift [OF assms(1)] compiling_bind_quiet routed_compiling [OF assms(2)]
        create_callback_compiling [OF assms(3)] compiling_session)
qed

lemma revoke_compiles:
  assumes "validateProviderInputs env inputs = Inr cfg" "routedClient env cfg = Some c"
  shows "compiles (new_events (revoke env inputs entity) w) =
     [(False, revocationStatement cfg, [(''username'', entity), (''database'', database cfg)])]"
proof (rule compiling_new_events)
  show "compiling
     [(False, revocationStatement cfg, [(''username'', entity), (''database'', database cfg)])]
     (revoke env inputs entity)"
    unfolding revoke_def Let_def
    by (intro compiling_lift [OF assms(1)] compiling_bind_quiet routed_compiling [OF assms(2)]
        revoke_callback_compiling compiling_session)
qed

lemma renew_compiles:
  assumes "validateProviderInputs env inputs = Inr cfg" "routedClient env cfg = Some c"
    "renewStatement cfg = Some t" "t \<noteq> []" "toISOString env expireAt = Inr expiration"
  shows "compiles (new_events (renew env inputs entity expireAt) w) =
     [(False, t, [(''username'', entity), (''expiration'', expiration),
                  (''database'', database cfg)])]"
proof (rule compiling_new_events)
  have "compiling
     [(False, t, [(''username'', entity), (''expiration'', expiration),
                  (''database'', database cfg)])]
     (bindE (if truthy (projectGatewayId cfg)
             then gatewayProxyWrapper env cfg (renew_gatewayCallback env cfg t entity expireAt)
             else renew_gatewayCallback env cfg t entity expireAt (host cfg) (port cfg))
        (\<lambda>_. returnE entity))"
    by (intro compiling_bind_quiet routed_compiling [OF assms(2)]
        renew_callback_compiling [OF assms(5)] compiling_session)
  then show "compiling
     [(False, t, [(''username'', entity), (''expiration'', expiration),
                  (''database'', database cfg)])]
     (renew env inputs entity expireAt)"
    unfolding renew_def
    by (intro compiling_lift [OF assms(1)]) (simp add: assms(3,4) Let_def)
qed

subsection \<open>The test double at work\<close>

lemmas hb_defs = handlebars_def demoCompile_def render_segment_def trim_def isIdentifier_def
  reserved_def isAlphaNumeric_def isDigit_def isUpper_def isLower_def lookupProperty_def
  escapeExpression_def escapeChar_def

lemmas demo_defs = demoEnv_def demoConfig_def world0_def demoRelay_def

lemma demo_validate:
  "validateProviderInputs demoEnv demoConfig = Inr demoConfig"
  by (simp add: validateProviderInputs_def verifyHostInputValidity_def demo_defs)


lemma revoke_demo:
  "new_events (revoke demoEnv demoConfig ''R&D'') world0 =
     [Knex (clientConfig demoConfig),
      Compile False ''DROP USER {{username}};'' [(''username'', ''R&D''), (''database'', ''app'')],
      TxBegin, TxRaw ''DROP USER R&amp'', TxRaw ''D'', TxCommit, Destroy]"
proof -
  have r: "compile demoEnv False ''DROP USER {{username}};''
             [(''username'', ''R&D''), (''database'', ''app'')] = Inr ''DROP USER R&amp;D;''"
    by (simp add: demoEnv_def hb_defs)
  have s: "filter_Boolean (split_on CHR '';'' ''DROP USER R&amp;D;'') = [''DROP USER R&amp'', ''D'']"
    by (simp add: filter_Boolean_def)
  have c: "connect demoEnv (clientConfig demoConfig) = Inr ()"
    by (simp add: demo_defs clientConfig_def)
  have e: "exec demoEnv db b ''DROP USER R&amp'' = Inr (b @ [''DROP USER R&amp''])"
    "exec demoEnv db b ''D'' = Inr (b @ [''D''])" for db b
    by (simp_all add: demoEnv_def)
  have g: "\<not> truthy (projectGatewayId demoConfig)" "host demoConfig = ''db.example.com''"
    "port demoConfig = 5432" "revocationStatement demoConfig = ''DROP USER {{username}};''"
    "database demoConfig = ''app''"
    by (simp_all add: demoConfig_def truthy_def)
  have same: "demoConfig\<lparr>port := 5432, host := ''db.example.com''\<rparr> = demoConfig"
    by (simp add: demoConfig_def)
  show ?thesis
    by (simp add: new_events_def revoke_def bindE_def liftE_def returnE_def demo_validate g same
        revoke_gatewayCallback_def getClient_eq finallyE_def handlebars_compile_eq r s c e
        transaction_def txRaw_def destroy_eq world0_def Let_def filter_Boolean_def)
qed

subsection \<open>Template contexts (C8)\<close>

text \<open>
  C8: in every call of \<^verbatim>\<open>revoke\<close> and of \<^verbatim>\<open>renew\<close>, every context passed to the
  renderer has no key \<^verbatim>\<open>password\<close>: revocation renders with exactly the user name
  (the entity identifier) and the database, renewal with exactly the user name, the
  expiration and the database. The context of \<^verbatim>\<open>create\<close> carries, besides these, the
  generated password.
\<close>

theorem contexts_without_password:
  "list_all (compile_calls (\<lambda>noEscape template context.
       ''password'' \<notin> set (map fst context) \<and>
       (\<exists>cfg. validateProviderInputs env inputs = Inr cfg \<and>
          context = [(''username'', entity), (''database'', database cfg)])))
     (new_events (revoke env inputs entity) w) \<and>
   list_all (compile_calls (\<lambda>noEscape template context.
       ''password'' \<notin> set (map fst context) \<and>
       (\<exists>cfg expiration. validateProviderInputs env inputs = Inr cfg \<and>
          toISOString env expireAt = Inr expiration \<and>
          context = [(''username'', entity), (''expiration'', expiration),
                     (''database'', database cfg)])))
     (new_events (renew env inputs entity expireAt) w) \<and>
   list_all (compile_calls (\<lambda>noEscape template context.
       (\<exists>cfg expiration. validateProviderInputs env inputs = Inr cfg \<and>
          toISOString env expireAt = Inr expiration \<and>
          context = [(''username'', generateUsername (client cfg) (random env 0)),
                     (''password'', generatePassword (client cfg) (random env 1)),
                     (''expiration'', expiration), (''database'', database cfg)])))
     (new_events (create env inputs expireAt) w)"
proof (intro conjI)
  show "list_all (compile_calls (\<lambda>noEscape template context.
       ''password'' \<notin> set (map fst context) \<and>
       (\<exists>cfg. validateProviderInputs env inputs = Inr cfg \<and>
          context = [(''username'', entity), (''database'', database cfg)])))
     (new_events (revoke env inputs entity) w)"
    by (rule emits_new_events, rule emits_revoke) simp
  show "list_all (compile_calls (\<lambda>noEscape template context.
       ''password'' \<notin> set (map fst context) \<and>
       (\<exists>cfg expiration. validateProviderInputs env inputs = Inr cfg \<and>
          toISOString env expireAt = Inr expiration \<and>
          context = [(''username'', entity), (''expiration'', expiration),
                     (''database'', database cfg)])))
     (new_events (renew env inputs entity expireAt) w)"
    by (rule emits_new_events, rule emits_renew) simp
  show "list_all (compile_calls (\<lambda>noEscape template context.
       (\<exists>cfg expiration. validateProviderInputs env inputs = Inr cfg \<and>
          toISOString env expireAt = Inr expiration \<and>
          context = [(''username'', generateUsername (client cfg) (random env 0)),
                     (''password'', generatePassword (client cfg) (random env 1)),
                     (''expiration'', expiration), (''database'', database cfg)])))
     (new_events (create env inputs expireAt) w)"
    by (rule emits_new_events, rule emits_create) simp
qed

text \<open>The statement of C8 on a revocation against the test double, which does call the renderer.\<close>

theorem contexts_without_password_witness:
  "Compile False ''DROP USER {{username}};'' [(''username'', ''R&D''), (''database'', ''app'')]
     \<in> set (new_events (revoke demoEnv demoConfig ''R&D'') world0) \<and>
   list_all (compile_calls (\<lambda>noEscape template context.
       ''password'' \<notin> set (map fst context) \<and>
       (\<exists>cfg. validateProviderInputs demoEnv demoConfig = Inr cfg \<and>
          context = [(''username'', ''R&D''), (''database'', database cfg)])))
     (new_events (revoke demoEnv demoConfig ''R&D'') world0)"
  using contexts_without_password [of demoEnv demoConfig "''R&D''" world0 0]
  by (simp add: revoke_demo)

subsection \<open>Escaping (C10)\<close>

lemma amp_validate: "validateProviderInputs demoEnv ampConfig = Inr ampConfig"
  by (simp add: validateProviderInputs_def verifyHostInputValidity_def demo_defs ampConfig_def)

lemma amp_fields:
  "\<not> truthy (projectGatewayId ampConfig)"
  "ampConfig\<lparr>port := port ampConfig, host := host ampConfig\<rparr> = ampConfig"
  "creationStatement ampConfig = ''GRANT ALL ON {{database}} TO app''"
  "revocationStatement ampConfig = ''REVOKE ALL ON {{database}} FROM app''"
  "renewStatement ampConfig = Some ''ALTER DATABASE {{database}}''"
  "database ampConfig = ''R&D''"
  by (simp_all add: ampConfig_def demoConfig_def truthy_def)

lemma amp_route:
  "routedClient demoEnv ampConfig = Some (clientConfig ampConfig)"
  "connect demoEnv (clientConfig ampConfig) = Inr ()"
  by (simp_all add: routedClient_def ampConfig_def demo_defs truthy_def clientConfig_def)

lemma demo_clock: "toISOString demoEnv 0 = Inr ''2030-01-01T00:00:00.000Z''"
  by (simp add: demoEnv_def)

lemma amp_renderings:
  "handlebars True ''GRANT ALL ON {{database}} TO app''
     [(''username'', u), (''password'', pw), (''expiration'', ex), (''database'', ''R&D'')]
     = Some (Inr ''GRANT ALL ON R&D TO app'')"
  "handlebars False ''REVOKE ALL ON {{database}} FROM app''
     [(''username'', ''lease1''), (''database'', ''R&D'')]
     = Some (Inr ''REVOKE ALL ON R&amp;D FROM app'')"
  "handlebars False ''ALTER DATABASE {{database}}''
     [(''username'', ''lease1''), (''expiration'', ex), (''database'', ''R&D'')]
     = Some (Inr ''ALTER DATABASE R&amp;D'')"
  by (simp_all add: hb_defs)

lemma amp_create:
  "statements (new_events (create demoEnv ampConfig 0) world0) = [''GRANT ALL ON R&D TO app'']"
proof -
  have q: "creationQueries demoEnv ampConfig
             (generateUsername (client ampConfig) (random demoEnv 0))
             (generatePassword (client ampConfig) (random demoEnv 1)) 0
           = Some [''GRANT ALL ON R&D TO app'']"
    by (simp add: creationQueries_def demo_clock amp_fields)
       (simp add: demoEnv_def demoCompile_def amp_renderings filter_Boolean_def)
  have b: "batch_result demoEnv c (backend world0) [''GRANT ALL ON R&D TO app'']
             = Inr [''GRANT ALL ON R&D TO app'']" for c
    by (simp add: demoEnv_def world0_def)
  obtain r w' where run: "create demoEnv ampConfig 0 world0 = (r, w')"
    by (cases "create demoEnv ampConfig 0 world0")
  from create_exact [OF amp_validate q amp_route, of world0]
  show ?thesis
    unfolding run b by simp
qed

lemma amp_revoke:
  "statements (new_events (revoke demoEnv ampConfig ''lease1'') world0)
     = [''REVOKE ALL ON R&amp'', ''D FROM app'']"
proof -
  have r: "compile demoEnv False ''REVOKE ALL ON {{database}} FROM app''
             [(''username'', ''lease1''), (''database'', ''R&D'')]
           = Inr ''REVOKE ALL ON R&amp;D FROM app''"
    by (simp add: demoEnv_def demoCompile_def amp_renderings)
  have e: "exec demoEnv db b ''REVOKE ALL ON R&amp'' = Inr (b @ [''REVOKE ALL ON R&amp''])"
    "exec demoEnv db b ''D FROM app'' = Inr (b @ [''D FROM app''])" for db b
    by (simp_all add: demoEnv_def)
  show ?thesis
    by (simp add: new_events_def revoke_def bindE_def liftE_def returnE_def amp_validate
        amp_fields revoke_gatewayCallback_def getClient_eq finallyE_def handlebars_compile_eq r
        amp_route e transaction_def txRaw_def destroy_eq world0_def Let_def filter_Boolean_def)
qed

lemma amp_renew:
  "statements (new_events (renew demoEnv ampConfig ''lease1'' 0) world0)
     = [''ALTER DATABASE R&amp'', ''D'']"
proof -
  have r: "compile demoEnv False ''ALTER DATABASE {{database}}''
             [(''username'', ''lease1''), (''expiration'', ''2030-01-01T00:00:00.000Z''),
              (''database'', ''R&D'')]
           = Inr ''ALTER DATABASE R&amp;D''"
    by (simp add: demoEnv_def demoCompile_def amp_renderings)
  have e: "exec demoEnv db b ''ALTER DATABASE R&amp'' = Inr (b @ [''ALTER DATABASE R&amp''])"
    "exec demoEnv db b ''D'' = Inr (b @ [''D''])" for db b
    by (simp_all add: demoEnv_def)
  show ?thesis
    by (simp add: new_events_def renew_def bindE_def liftE_def returnE_def amp_validate
        amp_fields renew_gatewayCallback_def getClient_eq finallyE_def handlebars_compile_eq r
        demo_clock amp_route e transaction_def txRaw_def destroy_eq world0_def Let_def
        filter_Boolean_def)
qed

text \<open>
  C10: \<^verbatim>\<open>create\<close> compiles its template with \<^verbatim>\<open>noEscape\<close> set, \<^verbatim>\<open>revoke\<close> and
  \<^verbatim>\<open>renew\<close> compile theirs without it: no call to the template library is made with
  the other flag, and for validated inputs whose route reaches the backend (and whose
  expiration converts, where one is rendered) each of the three makes exactly one call,
  with its template, its context and its flag.

  With the renderer modelled above, a value that contains \<^verbatim>\<open>&\<close> or an apostrophe is
  substituted as it is when \<^verbatim>\<open>noEscape\<close> is set and as an HTML entity otherwise. On
  the test double, whose database is named \<^verbatim>\<open>R&D\<close>, \<^verbatim>\<open>create\<close> sends the name as it
  is, and \<^verbatim>\<open>revoke\<close> and \<^verbatim>\<open>renew\<close> send the entity, which the separator then
  splits into two statements; the same holds for the entity identifier \<^verbatim>\<open>R&D\<close>.
\<close>

theorem rendering_not_uniform:
  "list_all (compile_calls (\<lambda>noEscape template context. noEscape))
     (new_events (create env inputs expireAt) w) \<and>
   list_all (compile_calls (\<lambda>noEscape template context. \<not> noEscape))
     (new_events (revoke env inputs entity) w) \<and>
   list_all (compile_calls (\<lambda>noEscape template context. \<not> noEscape))
     (new_events (renew env inputs entity expireAt) w) \<and>
   (\<forall>cfg c.
      validateProviderInputs env inputs = Inr cfg \<longrightarrow>
      routedClient env cfg = Some c \<longrightarrow>
      compiles (new_events (revoke env inputs entity) w) =
        [(False, revocationStatement cfg,
          [(''username'', entity), (''database'', database cfg)])] \<and>
      (\<forall>expiration.
         toISOString env expireAt = Inr expiration \<longrightarrow>
         compiles (new_events (create env inputs expireAt) w) =
           [(True, creationStatement cfg,
             [(''username'', generateUsername (client cfg) (random env 0)),
              (''password'', generatePassword (client cfg) (random env 1)),
              (''expiration'', expiration), (''database'', database cfg)])] \<and>
         (\<forall>template.
            renewStatement cfg = Some template \<longrightarrow>
            template \<noteq> [] \<longrightarrow>
            compiles (new_events (renew env inputs entity expireAt) w) =
              [(False, template,
                [(''username'', entity), (''expiration'', expiration),
                 (''database'', database cfg)])]))) \<and>
   handlebars True ''{{database}}'' [(''database'', ''R&D'')] = Some (Inr ''R&D'') \<and>
   handlebars False ''{{database}}'' [(''database'', ''R&D'')] = Some (Inr ''R&amp;D'') \<and>
   handlebars True ''{{username}}'' [(''username'', [CHR 0x27])] = Some (Inr [CHR 0x27]) \<and>
   handlebars False ''{{username}}'' [(''username'', [CHR 0x27])] = Some (Inr ''&#x27;'') \<and>
   statements (new_events (create demoEnv ampConfig 0) world0) = [''GRANT ALL ON R&D TO app''] \<and>
   statements (new_events (revoke demoEnv ampConfig ''lease1'') world0)
     = [''REVOKE ALL ON R&amp'', ''D FROM app''] \<and>
   statements (new_events (renew demoEnv ampConfig ''lease1'' 0) world0)
     = [''ALTER DATABASE R&amp'', ''D''] \<and>
   statements (new_events (revoke demoEnv demoConfig ''R&D'') world0)
     = [''DROP USER R&amp'', ''D'']"
proof (intro conjI allI impI)
  show "list_all (compile_calls (\<lambda>noEscape template context. noEscape))
     (new_events (create env inputs expireAt) w)"
    by (rule emits_new_events, rule emits_create) simp
  show "list_all (compile_calls (\<lambda>noEscape template context. \<not> noEscape))
     (new_events (revoke env inputs entity) w)"
    by (rule emits_new_events, rule emits_revoke) simp
  show "list_all (compile_calls (\<lambda>noEscape template context. \<not> noEscape))
     (new_events (renew env inputs entity expireAt) w)"
    by (rule emits_new_events, rule emits_renew) simp
next
  fix cfg c
  assume "validateProviderInputs env inputs = Inr cfg" "routedClient env cfg = Some c"
  then show "compiles (new_events (revoke env inputs entity) w) =
        [(False, revocationStatement cfg,
          [(''username'', entity), (''database'', database cfg)])]"
    by (rule revoke_compiles)
next
  fix cfg c expiration
  assume "validateProviderInputs env inputs = Inr cfg" "routedClient env cfg = Some c"
    "toISOString env expireAt = Inr expiration"
  then show "compiles (new_events (create env inputs expireAt) w) =
           [(True, creationStatement cfg,
             [(''username'', generateUsername (client cfg) (random env 0)),
              (''password'', generatePassword (client cfg) (random env 1)),
              (''expiration'', expiration), (''database'', database cfg)])]"
    by (rule create_compiles)
next
  fix cfg c expiration template
  assume "validateProviderInputs env inputs = Inr cfg" "routedClient env cfg = Some c"
    "toISOString env expireAt = Inr expiration" "renewStatement cfg = Some template"
    "template \<noteq> []"
  then show "compiles (new_events (renew env inputs entity expireAt) w) =
              [(False, template,
                [(''username'', entity), (''expiration'', expiration),
                 (''database'', database cfg)])]"
    by (intro renew_compiles)
next
  show "handlebars True ''{{database}}'' [(''database'', ''R&D'')] = Some (Inr ''R&D'')"
    by (simp add: hb_defs)
  show "handlebars False ''{{database}}'' [(''database'', ''R&D'')] = Some (Inr ''R&amp;D'')"
    by (simp add: hb_defs)
  show "handlebars True ''{{username}}'' [(''username'', [CHR 0x27])] = Some (Inr [CHR 0x27])"
    by (simp add: hb_defs)
  show "handlebars False ''{{username}}'' [(''username'', [CHR 0x27])] = Some (Inr ''&#x27;'')"
    by (simp add: hb_defs)
  show "statements (new_events (create demoEnv ampConfig 0) world0) = [''GRANT ALL ON R&D TO app'']"
    by (rule amp_create)
  show "statements (new_events (revoke demoEnv ampConfig ''lease1'') world0)
     = [''REVOKE ALL ON R&amp'', ''D FROM app'']"
    by (rule amp_revoke)
  show "statements (new_events (renew demoEnv ampConfig ''lease1'' 0) world0)
     = [''ALTER DATABASE R&amp'', ''D'']"
    by (rule amp_renew)
  show "statements (new_events (revoke demoEnv demoConfig ''R&D'') world0)
     = [''DROP USER R&amp'', ''D'']"
    by (simp add: revoke_demo)
qed

text \<open>
  The statement of C10 on the test double: the calls that the three entry points make to
  the template library, and what creation and revocation send for the same database name.
\<close>

theorem rendering_not_uniform_witness:
  "validateProviderInputs demoEnv ampConfig = Inr ampConfig \<and>
   routedClient demoEnv ampConfig = Some (clientConfig ampConfig) \<and>
   toISOString demoEnv 0 = Inr ''2030-01-01T00:00:00.000Z'' \<and>
   renewStatement ampConfig = Some ''ALTER DATABASE {{database}}'' \<and>
   compiles (new_events (create demoEnv ampConfig 0) world0) =
     [(True, ''GRANT ALL ON {{database}} TO app'',
       [(''username'', generateUsername (client ampConfig) (random demoEnv 0)),
        (''password'', generatePassword (client ampConfig) (random demoEnv 1)),
        (''expiration'', ''2030-01-01T00:00:00.000Z''), (''database'', ''R&D'')])] \<and>
   compiles (new_events (revoke demoEnv ampConfig ''lease1'') world0) =
     [(False, ''REVOKE ALL ON {{database}} FROM app'',
       [(''username'', ''lease1''), (''database'', ''R&D'')])] \<and>
   compiles (new_events (renew demoEnv ampConfig ''lease1'' 0) world0) =
     [(False, ''ALTER DATABASE {{database}}'',
       [(''username'', ''lease1''), (''expiration'', ''2030-01-01T00:00:00.000Z''),
        (''database'', ''R&D'')])] \<and>
   statements (new_events (create demoEnv ampConfig 0) world0) = [''GRANT ALL ON R&D TO app''] \<and>
   statements (new_events (revoke demoEnv ampConfig ''lease1'') world0)
     \<noteq> [''REVOKE ALL ON R&D FROM app'']"
  using rendering_not_uniform [of demoEnv ampConfig 0 world0 "''lease1''"]
    amp_validate amp_route(1) demo_clock amp_fields
  by simp

subsection \<open>Validation comes first (C6)\<close>

lemma entry_points_reject:
  assumes "validateProviderInputs env inputs = Inl e"
  shows "validateConnection env inputs w = (Inl e, w)"
    "create env inputs expireAt w = (Inl e, w)"
    "revoke env inputs entity w = (Inl e, w)"
    "renew env inputs entity expireAt w = (Inl e, w)"
  using assms
  by (simp_all add: validateConnection_def create_def revoke_def renew_def bindE_def liftE_def)

text \<open>
  C6: every entry point validates its inputs first, and an entry point whose inputs are
  rejected returns the error of the validation in an unchanged world: no backend session
  and no gateway call is attempted. For inputs that the schema accepts and whose host is a
  private or loopback literal, the validation fails with a validation error when no relay
  identifier is configured and accepts the configuration when one is.
\<close>

theorem host_validation:
  "(\<forall>e. validateProviderInputs env inputs = Inl e \<longrightarrow>
      validateConnection env inputs w = (Inl e, w) \<and>
      create env inputs expireAt w = (Inl e, w) \<and>
      revoke env inputs entity w = (Inl e, w) \<and>
      renew env inputs entity expireAt w = (Inl e, w)) \<and>
   (\<forall>cfg. parseAsync env inputs = Inr cfg \<and> isPrivateHost env (host cfg) \<longrightarrow>
      validateProviderInputs env inputs =
        (if truthy (projectGatewayId cfg) then Inr cfg else Inl ValidationError))"
  by (auto simp: entry_points_reject validateProviderInputs_def verifyHostInputValidity_def)

text \<open>
  The statement of C6 on the loopback address, without and with a relay identifier.
\<close>

theorem host_validation_witness:
  "parseAsync demoEnv (demoConfig\<lparr>host := ''127.0.0.1''\<rparr>) = Inr (demoConfig\<lparr>host := ''127.0.0.1''\<rparr>) \<and>
   isPrivateHost demoEnv (host (demoConfig\<lparr>host := ''127.0.0.1''\<rparr>)) \<and>
   \<not> truthy (projectGatewayId (demoConfig\<lparr>host := ''127.0.0.1''\<rparr>)) \<and>
   validateProviderInputs demoEnv (demoConfig\<lparr>host := ''127.0.0.1''\<rparr>) = Inl ValidationError \<and>
   create demoEnv (demoConfig\<lparr>host := ''127.0.0.1''\<rparr>) 0 world0 = (Inl ValidationError, world0) \<and>
   validateConnection demoEnv (demoConfig\<lparr>host := ''127.0.0.1''\<rparr>) world0
     = (Inl ValidationError, world0) \<and>
   truthy (projectGatewayId (demoConfig\<lparr>host := ''127.0.0.1'', projectGatewayId := Some ''gw''\<rparr>)) \<and>
   validateProviderInputs demoEnv (demoConfig\<lparr>host := ''127.0.0.1'', projectGatewayId := Some ''gw''\<rparr>)
     = Inr (demoConfig\<lparr>host := ''127.0.0.1'', projectGatewayId := Some ''gw''\<rparr>)"
proof -
  have a: "parseAsync demoEnv c = Inr c" for c
    by (simp add: demoEnv_def)
  have b: "isPrivateHost demoEnv ''127.0.0.1''"
    by (simp add: demoEnv_def)
  have c: "\<not> truthy (projectGatewayId (demoConfig\<lparr>host := ''127.0.0.1''\<rparr>))"
    "truthy (projectGatewayId (demoConfig\<lparr>host := ''127.0.0.1'', projectGatewayId := Some ''gw''\<rparr>))"
    by (simp_all add: demoConfig_def truthy_def)
  show ?thesis
    using a b c
      host_validation [of demoEnv "demoConfig\<lparr>host := ''127.0.0.1''\<rparr>" world0 0 "''lease1''"]
      host_validation [of demoEnv "demoConfig\<lparr>host := ''127.0.0.1'', projectGatewayId := Some ''gw''\<rparr>"
        world0 0 "''lease1''"]
    by simp
qed

subsection \<open>Routing (C5)\<close>

lemma validateConnection_run:
  assumes "validateProviderInputs env inputs = Inr cfg"
  shows "validateConnection env inputs w =
     (case (if truthy (projectGatewayId cfg)
            then gatewayProxyWrapper env cfg (validateConnection_gatewayCallback env cfg)
            else validateConnection_gatewayCallback env cfg (host cfg) (port cfg))
             \<lparr>backend = backend w, trace = trace w, locals = False\<rparr> of
        (Inl e, f) \<Rightarrow> (Inl e, w\<lparr>backend := backend f, trace := trace f\<rparr>)
      | (Inr _, f) \<Rightarrow> (Inr (locals f), w\<lparr>backend := backend f, trace := trace f\<rparr>))"
  using assms by (simp add: validateConnection_def Let_def)

lemma validateConnection_new_events:
  assumes "validateProviderInputs env inputs = Inr cfg"
  shows "new_events (validateConnection env inputs) w =
     new_events (if truthy (projectGatewayId cfg)
            then gatewayProxyWrapper env cfg (validateConnection_gatewayCallback env cfg)
            else validateConnection_gatewayCallback env cfg (host cfg) (port cfg))
       \<lparr>backend = backend w, trace = trace w, locals = False\<rparr>"
  unfolding new_events_def validateConnection_run [OF assms]
  by (simp split: prod.splits sum.splits)

lemma validateConnection_route:
  assumes "validateProviderInputs env inputs = Inr cfg"
  shows "if truthy (projectGatewayId cfg)
         then tunnel_route env cfg (new_events (validateConnection env inputs) w)
         else direct_route cfg (new_events (validateConnection env inputs) w)"
  unfolding validateConnection_new_events [OF assms]
  by (auto intro!: tunnel_routeI direct_routeI validateConnection_callback_route)

text \<open>
  C5: for validated inputs, each of the four entry points follows the gateway route when
  the configuration carries a (truthy) relay identifier: its client is constructed inside
  the tunnel, for the host \<^verbatim>\<open>localhost\<close> and the local port of the tunnel. Without a
  relay identifier it follows the direct route: its client is constructed for the
  configured host and port and no gateway call is made. (\<^verbatim>\<open>renew\<close> reaches the backend
  only when the configuration has a renewal statement.)
\<close>

theorem gateway_routing:
  assumes "validateProviderInputs env inputs = Inr cfg"
  shows "if truthy (projectGatewayId cfg)
         then tunnel_route env cfg (new_events (validateConnection env inputs) w) \<and>
              tunnel_route env cfg (new_events (create env inputs expireAt) w) \<and>
              tunnel_route env cfg (new_events (revoke env inputs entity) w) \<and>
              (truthy (renewStatement cfg) \<longrightarrow>
                 tunnel_route env cfg (new_events (renew env inputs entity expireAt) w))
         else direct_route cfg (new_events (validateConnection env inputs) w) \<and>
              direct_route cfg (new_events (create env inputs expireAt) w) \<and>
              direct_route cfg (new_events (revoke env inputs entity) w) \<and>
              (truthy (renewStatement cfg) \<longrightarrow>
                 direct_route cfg (new_events (renew env inputs entity expireAt) w))"
  using validateConnection_route [OF assms, of w] create_route [OF assms, of expireAt w]
    revoke_route [OF assms, of entity w] renew_route [OF assms, of entity expireAt w]
  by (simp split: if_splits)

subsection \<open>The outcome of \<^verbatim>\<open>validateConnection\<close> (C3)\<close>

lemma validateConnection_callback_eq:
  "validateConnection_gatewayCallback env cfg h p f =
     (let c = clientConfig (cfg\<lparr>port := p, host := h\<rparr>);
          statement = (if client cfg = Oracle then ''SELECT 1 FROM DUAL'' else ''SELECT 1'')
      in case connect env c of
           Inl e \<Rightarrow> (Inl e, f\<lparr>trace := trace f @ [Knex c]\<rparr>)
         | Inr _ \<Rightarrow>
             (case exec env c (backend f) statement of
                Inl e \<Rightarrow> (Inl e, f\<lparr>trace := trace f @ [Knex c, Raw statement]\<rparr>)
              | Inr b \<Rightarrow>
                  (Inr (), f\<lparr>backend := b, trace := trace f @ [Knex c, Raw statement, Destroy],
                             locals := True\<rparr>)))"
  by (simp add: validateConnection_gatewayCallback_def bindE_def getClient_eq raw_def destroy_eq
      Let_def split: sum.splits)

lemma callback_probe:
  "case validateConnection_gatewayCallback env cfg h p f of
     (r, f') \<Rightarrow>
       (case r of Inl e \<Rightarrow> Inl e | Inr _ \<Rightarrow> Inr (locals f')) =
         probe_outcome env (clientConfig (cfg\<lparr>port := p, host := h\<rparr>))
           (if client cfg = Oracle then ''SELECT 1 FROM DUAL'' else ''SELECT 1'') (backend f)"
  by (simp add: validateConnection_callback_eq probe_outcome_def Let_def split: sum.splits)

lemma probe_outcome_not_False: "probe_outcome env c s b \<noteq> Inr False"
  by (simp add: probe_outcome_def split: sum.splits)

lemma validateConnection_result:
  assumes "validateProviderInputs env inputs = Inr cfg"
  shows "fst (validateConnection env inputs w) =
        (let statement = (if client cfg = Oracle then ''SELECT 1 FROM DUAL'' else ''SELECT 1'')
         in if truthy (projectGatewayId cfg)
            then (case fnGetGatewayClientTls env (projectGatewayId cfg) of
                    Inl e \<Rightarrow> Inl e
                  | Inr d \<Rightarrow>
                      (case openTunnel env (proxyOptions cfg d) of
                         None \<Rightarrow> Inl GatewayError
                       | Some p \<Rightarrow>
                           probe_outcome env (clientConfig (cfg\<lparr>port := p, host := ''localhost''\<rparr>))
                             statement (backend w)))
            else probe_outcome env (clientConfig cfg) statement (backend w))"
proof (cases "truthy (projectGatewayId cfg)")
  case False
  let ?f = "\<lparr>backend = backend w, trace = trace w, locals = False\<rparr>"
  from callback_probe [where env = env and cfg = cfg and h = "host cfg" and p = "port cfg" and f = ?f] False
  show ?thesis
    unfolding validateConnection_run [OF assms]
    by (simp add: Let_def split: prod.splits sum.splits)
next
  case True
  let ?f = "\<lparr>backend = backend w, trace = trace w, locals = False\<rparr>"
  show ?thesis
  proof (cases "fnGetGatewayClientTls env (projectGatewayId cfg)")
    case (Inl e)
    with True show ?thesis
      unfolding validateConnection_run [OF assms]
      by (simp add: gatewayProxyWrapper_eq Let_def)
  next
    case (Inr d)
    show ?thesis
    proof (cases "openTunnel env (proxyOptions cfg d)")
      case None
      with True Inr show ?thesis
        unfolding validateConnection_run [OF assms]
        by (simp add: gatewayProxyWrapper_eq Let_def)
    next
      case (Some p)
      let ?f1 = "?f\<lparr>trace := trace ?f @ [GetGatewayClientTls (projectGatewayId cfg),
                                            TunnelOpen (proxyOptions cfg d) p]\<rparr>"
      from callback_probe [where env = env and cfg = cfg and h = "''localhost''" and p = p and f = ?f1] True Inr Some
      show ?thesis
        unfolding validateConnection_run [OF assms]
        by (simp add: gatewayProxyWrapper_eq Let_def split: prod.splits sum.splits)
    qed
  qed
qed

text \<open>
  C3, amended: \<^verbatim>\<open>validateConnection\<close> never returns \<^verbatim>\<open>false\<close>. An error of the
  validation is thrown on. For validated inputs the result is the outcome of the liveness
  probe through the client of the route (the direct one, or the one of the tunnel, after
  the errors of the relay directory and of the tunnel): \<^verbatim>\<open>true\<close> when the connection
  is acquired and the probe statement succeeds, and otherwise the error of the connection
  or of the probe statement, thrown on.
\<close>

theorem validateConnection_outcome:
  "fst (validateConnection env inputs w) \<noteq> Inr False \<and>
   (\<forall>e. validateProviderInputs env inputs = Inl e \<longrightarrow>
      fst (validateConnection env inputs w) = Inl e) \<and>
   (\<forall>cfg. validateProviderInputs env inputs = Inr cfg \<longrightarrow>
      fst (validateConnection env inputs w) =
        (let statement = (if client cfg = Oracle then ''SELECT 1 FROM DUAL'' else ''SELECT 1'')
         in if truthy (projectGatewayId cfg)
            then (case fnGetGatewayClientTls env (projectGatewayId cfg) of
                    Inl e \<Rightarrow> Inl e
                  | Inr d \<Rightarrow>
                      (case openTunnel env (proxyOptions cfg d) of
                         None \<Rightarrow> Inl GatewayError
                       | Some p \<Rightarrow>
                           probe_outcome env (clientConfig (cfg\<lparr>port := p, host := ''localhost''\<rparr>))
                             statement (backend w)))
            else probe_outcome env (clientConfig cfg) statement (backend w)))"
proof (intro conjI allI impI)
  show "fst (validateConnection env inputs w) \<noteq> Inr False"
  proof (cases "validateProviderInputs env inputs")
    case (Inl e)
    then show ?thesis by (simp add: entry_points_reject)
  next
    case (Inr cfg)
    show ?thesis
      unfolding validateConnection_result [OF Inr]
      by (simp add: Let_def probe_outcome_not_False split: sum.splits option.splits)
  qed
next
  fix e assume "validateProviderInputs env inputs = Inl e"
  then show "fst (validateConnection env inputs w) = Inl e"
    by (simp add: entry_points_reject)
next
  fix cfg assume "validateProviderInputs env inputs = Inr cfg"
  then show "fst (validateConnection env inputs w) =
        (let statement = (if client cfg = Oracle then ''SELECT 1 FROM DUAL'' else ''SELECT 1'')
         in if truthy (projectGatewayId cfg)
            then (case fnGetGatewayClientTls env (projectGatewayId cfg) of
                    Inl e \<Rightarrow> Inl e
                  | Inr d \<Rightarrow>
                      (case openTunnel env (proxyOptions cfg d) of
                         None \<Rightarrow> Inl GatewayError
                       | Some p \<Rightarrow>
                           probe_outcome env (clientConfig (cfg\<lparr>port := p, host := ''localhost''\<rparr>))
                             statement (backend w)))
            else probe_outcome env (clientConfig cfg) statement (backend w))"
    by (rule validateConnection_result)
qed

lemma refusing_validate: "validateProviderInputs refusingEnv demoConfig = Inr demoConfig"
  by (simp add: validateProviderInputs_def verifyHostInputValidity_def refusingEnv_def demo_defs)

lemma demoConfig_direct:
  "\<not> truthy (projectGatewayId demoConfig)" "client demoConfig \<noteq> Oracle"
  "demoConfig\<lparr>port := port demoConfig, host := host demoConfig\<rparr> = demoConfig"
  by (simp_all add: demoConfig_def truthy_def)

lemma demo_connect:
  "connect demoEnv (clientConfig demoConfig) = Inr ()"
  "connect refusingEnv (clientConfig demoConfig) = Inr ()"
  by (simp_all add: refusingEnv_def demo_defs clientConfig_def)

lemma refusing_exec: "exec refusingEnv c b q = Inl ExecutionError"
  by (simp add: refusingEnv_def)

lemma validateConnection_refused:
  "validateConnection refusingEnv demoConfig world0 =
     (Inl ExecutionError,
      world0\<lparr>trace := [Knex (clientConfig demoConfig), Raw ''SELECT 1'']\<rparr>)"
  by (simp add: validateConnection_run [OF refusing_validate] demoConfig_direct
      validateConnection_callback_eq demo_connect refusing_exec Let_def world0_def)

text \<open>
  C3, as stated, fails: against a backend that accepts the connection and refuses the
  probe statement, \<^verbatim>\<open>validateConnection\<close> throws the error of the statement and does
  not return \<^verbatim>\<open>false\<close>.
\<close>

theorem probe_failure_is_thrown:
  "connect refusingEnv (clientConfig demoConfig) = Inr () \<and>
   exec refusingEnv (clientConfig demoConfig) (backend world0) ''SELECT 1'' = Inl ExecutionError \<and>
   fst (validateConnection refusingEnv demoConfig world0) = Inl ExecutionError \<and>
   fst (validateConnection refusingEnv demoConfig world0) \<noteq> Inr False"
  by (simp add: validateConnection_refused demo_connect refusing_exec)

text \<open>
  The amended statement of C3 on the test double: a reachable backend, a backend that
  refuses the probe, and inputs that the validation rejects.
\<close>

theorem validateConnection_outcome_witness:
  "validateProviderInputs demoEnv demoConfig = Inr demoConfig \<and>
   fst (validateConnection demoEnv demoConfig world0) = Inr True \<and>
   validateProviderInputs refusingEnv demoConfig = Inr demoConfig \<and>
   fst (validateConnection refusingEnv demoConfig world0) = Inl ExecutionError \<and>
   validateProviderInputs demoEnv (demoConfig\<lparr>host := ''127.0.0.1''\<rparr>) = Inl ValidationError \<and>
   fst (validateConnection demoEnv (demoConfig\<lparr>host := ''127.0.0.1''\<rparr>) world0) = Inl ValidationError"
proof -
  have v: "validateProviderInputs demoEnv (demoConfig\<lparr>host := ''127.0.0.1''\<rparr>) = Inl ValidationError"
    by (simp add: validateProviderInputs_def verifyHostInputValidity_def demo_defs truthy_def)
  have p1: "probe_outcome demoEnv (clientConfig demoConfig) ''SELECT 1'' (backend world0) = Inr True"
    by (simp add: probe_outcome_def demo_connect) (simp add: demoEnv_def)
  have p2: "probe_outcome refusingEnv (clientConfig demoConfig) ''SELECT 1'' (backend world0)
              = Inl ExecutionError"
    by (simp add: probe_outcome_def demo_connect refusing_exec)
  show ?thesis
    using validateConnection_outcome [of demoEnv demoConfig world0]
      validateConnection_outcome [of refusingEnv demoConfig world0]
      validateConnection_outcome [of demoEnv "demoConfig\<lparr>host := ''127.0.0.1''\<rparr>" world0]
      demo_validate refusing_validate v p1 p2 demoConfig_direct
    by simp
qed

subsection \<open>\<^verbatim>\<open>create\<close> is atomic (C1)\<close>







subsection \<open>Sessions opened and closed (C2)\<close>

lemma opened_closed_append [simp]:
  "opened (xs @ ys) = opened xs + opened ys" "closed (xs @ ys) = closed xs + closed ys"
  by (simp_all add: opened_def closed_def)

lemma opened_closed_simps [simp]:
  "opened [] = 0" "closed [] = 0"
  "opened (Knex c # evs) = Suc (opened evs)" "closed (Knex c # evs) = closed evs"
  "opened (Destroy # evs) = opened evs" "closed (Destroy # evs) = Suc (closed evs)"
  "opened (GetGatewayClientTls g # evs) = opened evs" "closed (GetGatewayClientTls g # evs) = closed evs"
  "opened (TunnelOpen opts p # evs) = opened evs" "closed (TunnelOpen opts p # evs) = closed evs"
  "opened (TunnelClose # evs) = opened evs" "closed (TunnelClose # evs) = closed evs"
  "opened (Raw s # evs) = opened evs" "closed (Raw s # evs) = closed evs"
  "opened (Compile ne t ctx # evs) = opened evs" "closed (Compile ne t ctx # evs) = closed evs"
  by (simp_all add: opened_def closed_def)

lemma quiet_events:
  "list_all (\<lambda>ev. session_event ev \<and> ev \<noteq> Destroy) evs \<Longrightarrow> opened evs = 0 \<and> closed evs = 0"
proof (induction evs)
  case Nil
  then show ?case by simp
next
  case (Cons ev evs)
  then show ?case by (cases ev) (simp_all add: opened_def closed_def)
qed

lemma session_scope:
  assumes "\<And>db. emits (\<lambda>ev. session_event ev \<and> ev \<noteq> Destroy) (body db)"
  shows "\<exists>evs. trace (snd (bindE (getClient cfg) (\<lambda>db. finallyE (body db) (destroy db)) w))
            = trace w @ evs \<and> opened evs = 1 \<and> closed evs = 1"
proof -
  let ?c = "clientConfig cfg"
  let ?w1 = "w\<lparr>trace := trace w @ [Knex ?c]\<rparr>"
  obtain r w2 where run: "body ?c ?w1 = (r, w2)" by (cases "body ?c ?w1")
  from emitsD [OF assms, of ?c ?w1] run obtain evs
    where evs: "trace w2 = trace ?w1 @ evs" "list_all (\<lambda>ev. session_event ev \<and> ev \<noteq> Destroy) evs"
    by auto
  have "trace (snd (bindE (getClient cfg) (\<lambda>db. finallyE (body db) (destroy db)) w))
          = trace w @ (Knex ?c # evs @ [Destroy])"
    using run evs(1) by (simp add: bindE_def getClient_eq finallyE_def destroy_eq)
  moreover have "opened (Knex ?c # evs @ [Destroy]) = 1" "closed (Knex ?c # evs @ [Destroy]) = 1"
    using quiet_events [OF evs(2)] by simp_all
  ultimately show ?thesis by blast
qed

lemma wrapper_scope:
  assumes "\<And>p w. \<exists>evs. trace (snd (cb ''localhost'' p w)) = trace w @ evs \<and>
                      opened evs = 1 \<and> closed evs = 1"
  shows "\<exists>evs. trace (snd (gatewayProxyWrapper env cfg cb w)) = trace w @ evs \<and>
           opened evs = closed evs \<and> opened evs \<le> 1"
proof (cases "fnGetGatewayClientTls env (projectGatewayId cfg)")
  case (Inl e)
  then have "trace (snd (gatewayProxyWrapper env cfg cb w))
               = trace w @ [GetGatewayClientTls (projectGatewayId cfg)]"
    by (simp add: gatewayProxyWrapper_eq)
  moreover have "opened [GetGatewayClientTls (projectGatewayId cfg)] = 0"
    "closed [GetGatewayClientTls (projectGatewayId cfg)] = 0" by simp_all
  ultimately show ?thesis by (metis le0 less_eq_nat.simps(1))
next
  case (Inr d)
  show ?thesis
  proof (cases "openTunnel env (proxyOptions cfg d)")
    case None
    with Inr have "trace (snd (gatewayProxyWrapper env cfg cb w))
               = trace w @ [GetGatewayClientTls (projectGatewayId cfg)]"
      by (simp add: gatewayProxyWrapper_eq)
    moreover have "opened [GetGatewayClientTls (projectGatewayId cfg)] = 0"
      "closed [GetGatewayClientTls (projectGatewayId cfg)] = 0" by simp_all
    ultimately show ?thesis by (metis le0)
  next
    case (Some p)
    let ?g = "[GetGatewayClientTls (projectGatewayId cfg), TunnelOpen (proxyOptions cfg d) p]"
    let ?w1 = "w\<lparr>trace := trace w @ ?g\<rparr>"
    obtain r w2 where run: "cb ''localhost'' p ?w1 = (r, w2)" by (cases "cb ''localhost'' p ?w1")
    from assms [of p ?w1] run obtain evs
      where evs: "trace w2 = trace ?w1 @ evs" "opened evs = 1" "closed evs = 1" by auto
    have "trace (snd (gatewayProxyWrapper env cfg cb w)) = trace w @ (?g @ evs @ [TunnelClose])"
      using Inr Some run evs(1) by (simp add: gatewayProxyWrapper_eq)
    moreover have "opened (?g @ evs @ [TunnelClose]) = 1" "closed (?g @ evs @ [TunnelClose]) = 1"
      using evs(2,3) by simp_all
    ultimately show ?thesis by (metis le_refl)
  qed
qed

lemmas quiet_intros =
  emits_returnE emits_throwE emits_liftE emits_bindE emits_bind_liftE emits_transaction
  emits_runQueries emits_handlebars_compile

lemma create_callback_scope:
  "\<exists>evs. trace (snd (create_gatewayCallback env cfg u pw ex h p w)) = trace w @ evs \<and>
          opened evs = 1 \<and> closed evs = 1"
  unfolding create_gatewayCallback_def
  by (rule session_scope) (auto intro!: quiet_intros simp: Let_def)

lemma revoke_callback_scope:
  "\<exists>evs. trace (snd (revoke_gatewayCallback env cfg u h p w)) = trace w @ evs \<and>
          opened evs = 1 \<and> closed evs = 1"
  unfolding revoke_gatewayCallback_def
  by (rule session_scope) (auto intro!: quiet_intros simp: Let_def)

lemma scope_new_events:
  assumes "\<exists>evs. trace (snd (m w)) = trace w @ evs \<and> opened evs = closed evs \<and> opened evs \<le> 1"
  shows "opened (new_events m w) = closed (new_events m w) \<and> opened (new_events m w) \<le> 1"
  using assms by (auto simp: new_events_def)

lemma create_scope:
  "opened (new_events (create env inputs expireAt) w) = closed (new_events (create env inputs expireAt) w) \<and>
   opened (new_events (create env inputs expireAt) w) \<le> 1"
proof (cases "validateProviderInputs env inputs")
  case (Inl e)
  then show ?thesis by (simp add: new_events_def entry_points_reject)
next
  case (Inr cfg)
  let ?cb = "create_gatewayCallback env cfg (generateUsername (client cfg) (random env 0))
               (generatePassword (client cfg) (random env 1)) expireAt"
  have ne: "new_events (create env inputs expireAt) w =
          new_events (if truthy (projectGatewayId cfg) then gatewayProxyWrapper env cfg ?cb
                      else ?cb (host cfg) (port cfg)) w"
    using Inr by (simp add: create_def Let_def del: One_nat_def)
  show ?thesis
  proof (cases "truthy (projectGatewayId cfg)")
    case True
    have "\<exists>evs. trace (snd (gatewayProxyWrapper env cfg ?cb w)) = trace w @ evs \<and>
            opened evs = closed evs \<and> opened evs \<le> 1"
      by (rule wrapper_scope) (rule create_callback_scope)
    from scope_new_events [where m = "gatewayProxyWrapper env cfg ?cb" and w = w, OF this] True
    show ?thesis
      unfolding ne by simp
  next
    case False
    from create_callback_scope [of env cfg _ _ expireAt "host cfg" "port cfg" w]
    have "\<exists>evs. trace (snd (?cb (host cfg) (port cfg) w)) = trace w @ evs \<and>
            opened evs = closed evs \<and> opened evs \<le> 1"
      by (metis le_refl)
    from scope_new_events [where m = "?cb (host cfg) (port cfg)" and w = w, OF this] False
    show ?thesis
      unfolding ne by simp
  qed
qed

lemma revoke_scope:
  "opened (new_events (revoke env inputs entity) w) = closed (new_events (revoke env inputs entity) w) \<and>
   opened (new_events (revoke env inputs entity) w) \<le> 1"
proof (cases "validateProviderInputs env inputs")
  case (Inl e)
  then show ?thesis by (simp add: new_events_def entry_points_reject)
next
  case (Inr cfg)
  let ?cb = "revoke_gatewayCallback env cfg entity"
  have ne: "new_events (revoke env inputs entity) w =
          new_events (if truthy (projectGatewayId cfg) then gatewayProxyWrapper env cfg ?cb
                      else ?cb (host cfg) (port cfg)) w"
    using Inr by (simp add: revoke_def Let_def)
  show ?thesis
  proof (cases "truthy (projectGatewayId cfg)")
    case True
    have "\<exists>evs. trace (snd (gatewayProxyWrapper env cfg ?cb w)) = trace w @ evs \<and>
            opened evs = closed evs \<and> opened evs \<le> 1"
      by (rule wrapper_scope) (rule revoke_callback_scope)
    from scope_new_events [where m = "gatewayProxyWrapper env cfg ?cb" and w = w, OF this] True
    show ?thesis
      unfolding ne by simp
  next
    case False
    from revoke_callback_scope [of env cfg entity "host cfg" "port cfg" w]
    have "\<exists>evs. trace (snd (?cb (host cfg) (port cfg) w)) = trace w @ evs \<and>
            opened evs = closed evs \<and> opened evs \<le> 1"
      by (metis le_refl)
    from scope_new_events [where m = "?cb (host cfg) (port cfg)" and w = w, OF this] False
    show ?thesis
      unfolding ne by simp
  qed
qed

lemma trace_world0 [simp]: "trace world0 = []" "backend world0 = []"
  by (simp_all add: world0_def)

lemma renew_broken:
  "renew demoEnv brokenRenewConfig ''lease1'' 0 world0 =
     (Inl TemplateError,
      world0\<lparr>trace :=
        [Knex (clientConfig brokenRenewConfig),
         Compile False ''ALTER USER {{username''
           [(''username'', ''lease1''), (''expiration'', ''2030-01-01T00:00:00.000Z''),
            (''database'', ''app'')]]\<rparr>)"
proof -
  have v: "validateProviderInputs demoEnv brokenRenewConfig = Inr brokenRenewConfig"
    by (simp add: validateProviderInputs_def verifyHostInputValidity_def demo_defs
        brokenRenewConfig_def)
  have g: "\<not> truthy (projectGatewayId brokenRenewConfig)"
    "brokenRenewConfig\<lparr>port := port brokenRenewConfig, host := host brokenRenewConfig\<rparr>
       = brokenRenewConfig"
    "renewStatement brokenRenewConfig = Some ''ALTER USER {{username''"
    "database brokenRenewConfig = ''app''"
    by (simp_all add: brokenRenewConfig_def demoConfig_def truthy_def)
  have t: "toISOString demoEnv 0 = Inr ''2030-01-01T00:00:00.000Z''"
    by (simp add: demoEnv_def)
  have r: "compile demoEnv False ''ALTER USER {{username'' ctx = Inl TemplateError" for ctx
    by (simp add: demoEnv_def hb_defs)
  show ?thesis
    unfolding renew_def renew_gatewayCallback_def
    by (simp add: bindE_def liftE_def returnE_def v g t r getClient_eq handlebars_compile_eq
        world0_def Let_def)
qed

text \<open>
  C2 holds for \<^verbatim>\<open>create\<close> and \<^verbatim>\<open>revoke\<close>, whose callbacks destroy the client in a
  \<^verbatim>\<open>finally\<close> block: in every outcome, as many sessions are closed as were opened
  (one, or none when the call fails before its callback runs). It fails for the other two
  entry points. \<^verbatim>\<open>validateConnection\<close> has no \<^verbatim>\<open>finally\<close>: against a backend that
  refuses the probe statement it opens a session, throws, and closes nothing.
  \<^verbatim>\<open>renew\<close> renders its template between the construction of the client and the
  \<^verbatim>\<open>try\<close> block: on a template that does not render it opens a session, throws, and
  closes nothing.
\<close>

theorem session_release:
  "opened (new_events (create env inputs expireAt) w)
     = closed (new_events (create env inputs expireAt) w) \<and>
   opened (new_events (create env inputs expireAt) w) \<le> 1 \<and>
   opened (new_events (revoke env inputs entity) w)
     = closed (new_events (revoke env inputs entity) w) \<and>
   opened (new_events (revoke env inputs entity) w) \<le> 1 \<and>
   fst (validateConnection refusingEnv demoConfig world0) = Inl ExecutionError \<and>
   new_events (validateConnection refusingEnv demoConfig) world0
     = [Knex (clientConfig demoConfig), Raw ''SELECT 1''] \<and>
   opened (new_events (validateConnection refusingEnv demoConfig) world0) = 1 \<and>
   closed (new_events (validateConnection refusingEnv demoConfig) world0) = 0 \<and>
   fst (renew demoEnv brokenRenewConfig ''lease1'' 0 world0) = Inl TemplateError \<and>
   opened (new_events (renew demoEnv brokenRenewConfig ''lease1'' 0) world0) = 1 \<and>
   closed (new_events (renew demoEnv brokenRenewConfig ''lease1'' 0) world0) = 0"
  using create_scope [of env inputs expireAt w] revoke_scope [of env inputs entity w]
  by (simp add: validateConnection_refused renew_broken new_events_def)

subsection \<open>Routing on the test double (C5)\<close>

lemma validateConnection_tunnelled:
  "new_events (validateConnection demoEnv gatewayConfig) world0 =
     [GetGatewayClientTls (Some ''gw-1''),
      TunnelOpen (proxyOptions gatewayConfig demoRelay) 40123,
      Knex (clientConfig (gatewayConfig\<lparr>port := 40123, host := ''localhost''\<rparr>)),
      Raw ''SELECT 1'', Destroy, TunnelClose]"
proof -
  have v: "validateProviderInputs demoEnv gatewayConfig = Inr gatewayConfig"
    by (simp add: validateProviderInputs_def verifyHostInputValidity_def demo_defs
        gatewayConfig_def)
  have g: "truthy (projectGatewayId gatewayConfig)" "projectGatewayId gatewayConfig = Some ''gw-1''"
    "client gatewayConfig \<noteq> Oracle"
    by (simp_all add: gatewayConfig_def demoConfig_def truthy_def)
  have r: "fnGetGatewayClientTls demoEnv gid = Inr demoRelay" "openTunnel demoEnv opts = Some 40123"
    for gid opts
    by (simp_all add: demoEnv_def)
  have c: "connect demoEnv (clientConfig (gatewayConfig\<lparr>port := 40123, host := ''localhost''\<rparr>)) = Inr ()"
    by (simp add: demoEnv_def clientConfig_def)
  have e: "exec demoEnv db b ''SELECT 1'' = Inr (b @ [''SELECT 1''])" for db b
    by (simp add: demoEnv_def)
  show ?thesis
    by (simp add: new_events_def validateConnection_run [OF v] g r c e gatewayProxyWrapper_eq
        validateConnection_callback_eq Let_def truthy_def)
qed

text \<open>
  The statement of C5 on the test double: with a relay identifier the client is
  constructed for \<^verbatim>\<open>localhost\<close> and the port of the tunnel, inside the tunnel; without
  one the call is routed directly.
\<close>

theorem gateway_routing_witness:
  "validateProviderInputs demoEnv gatewayConfig = Inr gatewayConfig \<and>
   truthy (projectGatewayId gatewayConfig) \<and>
   tunnel_route demoEnv gatewayConfig (new_events (validateConnection demoEnv gatewayConfig) world0) \<and>
   conn_host (clientConfig (gatewayConfig\<lparr>port := 40123, host := ''localhost''\<rparr>)) = ''localhost'' \<and>
   Knex (clientConfig (gatewayConfig\<lparr>port := 40123, host := ''localhost''\<rparr>))
     \<in> set (new_events (validateConnection demoEnv gatewayConfig) world0) \<and>
   validateProviderInputs demoEnv demoConfig = Inr demoConfig \<and>
   \<not> truthy (projectGatewayId demoConfig) \<and>
   direct_route demoConfig (new_events (revoke demoEnv demoConfig ''R&D'') world0)"
proof -
  have v: "validateProviderInputs demoEnv gatewayConfig = Inr gatewayConfig"
    by (simp add: validateProviderInputs_def verifyHostInputValidity_def demo_defs
        gatewayConfig_def)
  have g: "truthy (projectGatewayId gatewayConfig)"
    by (simp add: gatewayConfig_def truthy_def)
  from gateway_routing [OF v, of world0 0 "''R&D''"] gateway_routing [OF demo_validate, of world0 0 "''R&D''"]
    v g demoConfig_direct(1) demo_validate
  show ?thesis
    by (simp add: validateConnection_tunnelled)
qed

end
